theory Spec2Isabelle
  imports Complex_Main "HOL-Library.AList"
begin

section \<open>Values, exceptions and responses of the web layer (src/app.py)\<close>

text \<open>
  Python values that travel through the handlers: JSON-like data. A dict is an
  association list in insertion order with string keys. Floats are idealised as
  rationals; the handlers only pass them on.
\<close>

datatype pyval =
    PNone
  | PBool bool
  | PInt int
  | PNum rat
  | PStr string
  | PList "pyval list"
  | PDict "(string \<times> pyval) list"

type_synonym pydict = "(string \<times> pyval) list"

text \<open>
  Exceptions caught by \<^verbatim>\<open>except Exception\<close>. \<open>Raised msg\<close> is any exception of an
  external collaborator (database, analyzer, insight generator) whose \<^verbatim>\<open>str\<close> is \<open>msg\<close>.
\<close>

datatype exn =
    KeyError string
  | TypeError string
  | AttributeError string
  | Raised string

fun str_exn :: "exn \<Rightarrow> string" where
  "str_exn (KeyError k) = [CHR 0x27] @ k @ [CHR 0x27]"
| "str_exn (TypeError m) = m"
| "str_exn (AttributeError m) = m"
| "str_exn (Raised m) = m"

fun type_name :: "pyval \<Rightarrow> string" where
  "type_name PNone = ''NoneType''"
| "type_name (PBool _) = ''bool''"
| "type_name (PInt _) = ''int''"
| "type_name (PNum _) = ''float''"
| "type_name (PStr _) = ''str''"
| "type_name (PList _) = ''list''"
| "type_name (PDict _) = ''dict''"

text \<open>\<^verbatim>\<open>d[k] = v\<close>: an existing key keeps its place, a new key goes to the end.\<close>

definition setitem :: "string \<Rightarrow> pyval \<Rightarrow> pydict \<Rightarrow> pydict" where
  "setitem k v d = AList.update k v d"

text \<open>\<^verbatim>\<open>d[k]\<close>: raises KeyError when the key is missing.\<close>

definition getitem :: "pydict \<Rightarrow> string \<Rightarrow> exn + pyval" where
  "getitem d k = (case map_of d k of None \<Rightarrow> Inl (KeyError k) | Some v \<Rightarrow> Inr v)"

text \<open>\<^verbatim>\<open>d.get(k, default)\<close>\<close>

definition get_default :: "pydict \<Rightarrow> string \<Rightarrow> pyval \<Rightarrow> pyval" where
  "get_default d k dflt = (case map_of d k of None \<Rightarrow> dflt | Some v \<Rightarrow> v)"

text \<open>A dict display \<^verbatim>\<open>{k1: v1, ..., **m, ...}\<close>: the items are stored left to right.\<close>

definition dict_display :: "(string \<times> pyval) list \<Rightarrow> pydict" where
  "dict_display items = foldl (\<lambda>d (k, v). setitem k v d) [] items"

record response =
  status :: nat
  body :: pyval

text \<open>\<^verbatim>\<open>jsonify({'success': False, 'error': msg}), code\<close>\<close>

definition error_response :: "nat \<Rightarrow> string \<Rightarrow> response" where
  "error_response code msg =
     \<lparr>status = code, body = PDict [(''success'', PBool False), (''error'', PStr msg)]\<rparr>"

text \<open>
  \<^verbatim>\<open>jsonify({'success': True, 'analysis': analysis})\<close>, status 200 by default. Every
  \<open>pyval\<close> can be serialised, so \<^verbatim>\<open>jsonify\<close> does not raise here.
\<close>

definition analysis_response :: "pydict \<Rightarrow> response" where
  "analysis_response analysis =
     \<lparr>status = 200, body = PDict [(''success'', PBool True), (''analysis'', PDict analysis)]\<rparr>"

section \<open>Datasets\<close>

text \<open>
  A cell is a raw value or null. A dataset (a pandas DataFrame in the web layer) has its
  declared columns and its rows, each row a mapping from column name to cell.
\<close>

type_synonym cell = "string option"

record dataset =
  columns :: "string list"
  rows :: "(string \<times> cell) list list"

section \<open>External collaborators of the web layer\<close>

datatype table_model = Employee | Payroll | Invoice | Expense

text \<open>
  The analyzer class \<^verbatim>\<open>DataQualityAnalyzer\<close> lives in src/services/dq_analyzer.py, which
  is not part of the sources at hand; the handlers are parametric in it. An instance has
  a state of type \<open>'a\<close>; \<open>analyze_dataframe\<close> returns the report (a dict) or raises, and
  the instance as the call leaves it.
\<close>

record 'a analyzer_class =
  construct :: 'a
  analyze_dataframe :: "'a \<Rightarrow> dataset \<Rightarrow> string \<Rightarrow> (exn + pydict) \<times> 'a"

record upload =
  filename :: string
  content :: string

text \<open>
  The environment of one request: the database as the request's session sees it, the
  CSV reader and the two calls of the insight generator \<^verbatim>\<open>llm_service\<close>. Each call may
  raise.
\<close>

record env =
  db_table :: "table_model \<Rightarrow> dataset"
  query_error :: "table_model \<Rightarrow> exn option"
  read_sql_error :: "table_model \<Rightarrow> exn option"
  read_csv :: "upload \<Rightarrow> exn + dataset"
  analyze_table_quality :: "pyval \<Rightarrow> exn + pyval"
  detect_domain_single_word :: "string list \<Rightarrow> string \<Rightarrow> exn + pyval"

text \<open>The calls a handler makes to its collaborators, in order.\<close>

datatype event =
    EvQueryAll table_model
  | EvReadSql table_model
  | EvReadCsv upload
  | EvAnalyze dataset string
  | EvDetectDomain "string list" string
  | EvInsight pyval
  | EvQueryInsight nat
  | EvCommit
  | EvRollback
  | EvClose

text \<open>\<^verbatim>\<open>session.query(model).all()\<close>\<close>

definition query_all :: "env \<Rightarrow> table_model \<Rightarrow> exn + (string \<times> cell) list list" where
  "query_all E m = (case query_error E m of Some e \<Rightarrow> Inl e | None \<Rightarrow> Inr (rows (db_table E m)))"

text \<open>\<^verbatim>\<open>pd.read_sql(session.query(model).statement, session.bind)\<close>\<close>

definition read_sql :: "env \<Rightarrow> table_model \<Rightarrow> exn + dataset" where
  "read_sql E m = (case read_sql_error E m of Some e \<Rightarrow> Inl e | None \<Rightarrow> Inr (db_table E m))"

section \<open>The analysis routes\<close>

text \<open>\<^verbatim>\<open>table_map\<close> of \<^verbatim>\<open>analyze_table\<close>.\<close>

definition table_map :: "string \<Rightarrow> table_model option" where
  "table_map = map_of [(''employees'', Employee), (''payroll'', Payroll),
                       (''invoices'', Invoice), (''expenses'', Expense)]"

text \<open>
  The argument of \<^verbatim>\<open>llm_service.analyze_table_quality\<close>:
  \<^verbatim>\<open>{'table_name': name, 'domain': domain, **analysis['table_scores'], 'issues': analysis['issues']}\<close>.
  The items are evaluated left to right; a missing key raises KeyError and a
  \<^verbatim>\<open>table_scores\<close> that is no mapping raises TypeError.
\<close>

definition llm_request :: "string \<Rightarrow> pyval \<Rightarrow> pydict \<Rightarrow> exn + pyval" where
  "llm_request name domain analysis =
     (case getitem analysis ''table_scores'' of
        Inl e \<Rightarrow> Inl e
      | Inr (PDict scores) \<Rightarrow>
          (case getitem analysis ''issues'' of
             Inl e \<Rightarrow> Inl e
           | Inr issues \<Rightarrow>
               Inr (PDict (dict_display
                 ([(''table_name'', PStr name), (''domain'', domain)] @ scores @
                  [(''issues'', issues)]))))
      | Inr v \<Rightarrow> Inl (TypeError ([CHR 0x27] @ type_name v @ ''' object is not a mapping'')))"

text \<open>The value stored when the insight generator fails.\<close>

definition insight_failure :: "exn \<Rightarrow> pyval" where
  "insight_failure e = PDict [(''success'', PBool False), (''error'', PStr (str_exn e))]"

text \<open>
  The block "Always generate AI insights" (lines 98-112 and 156-170; the two copies
  differ in the name and the domain only). Returns the updated analysis and the calls
  made.
\<close>

definition add_ai_insights :: "env \<Rightarrow> string \<Rightarrow> pyval \<Rightarrow> pydict \<Rightarrow> pydict \<times> event list" where
  "add_ai_insights E name domain analysis =
     (case llm_request name domain analysis of
        Inl e \<Rightarrow> (setitem ''ai_insights'' (insight_failure e) analysis, [])
      | Inr req \<Rightarrow>
          (case analyze_table_quality E req of
             Inl e \<Rightarrow> (setitem ''ai_insights'' (insight_failure e) analysis, [EvInsight req])
           | Inr llm_result \<Rightarrow> (setitem ''ai_insights'' llm_result analysis, [EvInsight req])))"

text \<open>
  \<^verbatim>\<open>analyze_table(table_name)\<close>, lines 69-124. \<open>az\<close> is the module-level instance
  \<^verbatim>\<open>dq_analyzer\<close> (line 40) as the request finds it; the result holds the response, the
  calls made and the instance as the request leaves it.
\<close>

definition analyze_table ::
  "'a analyzer_class \<Rightarrow> env \<Rightarrow> 'a \<Rightarrow> string \<Rightarrow> response \<times> event list \<times> 'a" where
  "analyze_table cls E az table_name =
     (case table_map table_name of
        None \<Rightarrow> (error_response 400 ''Invalid table name'', [EvClose], az)
      | Some model \<Rightarrow>
          (case query_all E model of
             Inl e \<Rightarrow> (error_response 500 (str_exn e), [EvQueryAll model, EvClose], az)
           | Inr data \<Rightarrow>
               if data = [] then
                 (error_response 404 ''No data found'', [EvQueryAll model, EvClose], az)
               else
                 (case read_sql E model of
                    Inl e \<Rightarrow>
                      (error_response 500 (str_exn e),
                       [EvQueryAll model, EvReadSql model, EvClose], az)
                  | Inr df \<Rightarrow>
                      (case analyze_dataframe cls az df table_name of
                         (Inl e, az') \<Rightarrow>
                           (error_response 500 (str_exn e),
                            [EvQueryAll model, EvReadSql model, EvAnalyze df table_name, EvClose],
                            az')
                       | (Inr analysis, az') \<Rightarrow>
                           (case add_ai_insights E table_name (PStr ''HR/Finance'') analysis of
                              (analysis', evs) \<Rightarrow>
                                (analysis_response analysis',
                                 [EvQueryAll model, EvReadSql model, EvAnalyze df table_name]
                                   @ evs @ [EvClose],
                                 az'))))))"

text \<open>\<^verbatim>\<open>s.endswith(suffix)\<close>\<close>

definition endswith :: "string \<Rightarrow> string \<Rightarrow> bool" where
  "endswith s suf = (length suf \<le> length s \<and> drop (length s - length suf) s = suf)"

text \<open>
  The block "Detect domain via LLM" of \<^verbatim>\<open>analyze_csv\<close> (lines 148-154): the detected
  domain, or \<^verbatim>\<open>'Unknown'\<close> when the detection raises.
\<close>

definition add_detected_domain :: "env \<Rightarrow> dataset \<Rightarrow> string \<Rightarrow> pydict \<Rightarrow> pydict" where
  "add_detected_domain E df name analysis =
     (case detect_domain_single_word E (columns df) name of
        Inl e \<Rightarrow> setitem ''detected_domain'' (PStr ''Unknown'') analysis
      | Inr d \<Rightarrow> setitem ''detected_domain'' d analysis)"

text \<open>
  \<^verbatim>\<open>analyze_csv()\<close>, lines 127-178. \<open>file\<close> is \<^verbatim>\<open>request.files.get('file')\<close>. The three
  checks of the upload come before the \<^verbatim>\<open>try\<close>.
\<close>

definition analyze_csv ::
  "'a analyzer_class \<Rightarrow> env \<Rightarrow> 'a \<Rightarrow> upload option \<Rightarrow> response \<times> event list \<times> 'a" where
  "analyze_csv cls E az file =
     (case file of
        None \<Rightarrow> (error_response 400 ''No file uploaded'', [], az)
      | Some f \<Rightarrow>
          if filename f = [] then (error_response 400 ''No file selected'', [], az)
          else if \<not> endswith (filename f) ''.csv'' then
            (error_response 400 ''Only CSV files are supported'', [], az)
          else
            (case read_csv E f of
               Inl e \<Rightarrow> (error_response 500 (str_exn e), [EvReadCsv f], az)
             | Inr df \<Rightarrow>
                 (case analyze_dataframe cls az df (filename f) of
                    (Inl e, az') \<Rightarrow>
                      (error_response 500 (str_exn e),
                       [EvReadCsv f, EvAnalyze df (filename f)], az')
                  | (Inr analysis, az') \<Rightarrow>
                      (let detected = add_detected_domain E df (filename f) analysis
                       in case add_ai_insights E (filename f)
                                 (get_default detected ''detected_domain'' (PStr ''Uploaded Data''))
                                 detected of
                            (analysis', evs) \<Rightarrow>
                              (analysis_response analysis',
                               [EvReadCsv f, EvAnalyze df (filename f),
                                EvDetectDomain (columns df) (filename f)] @ evs,
                               az')))))"

subsection \<open>Reading responses and call lists\<close>

definition success_flag :: "response \<Rightarrow> pyval option" where
  "success_flag r = (case body r of PDict d \<Rightarrow> map_of d ''success'' | _ \<Rightarrow> None)"

definition analysis_of :: "response \<Rightarrow> pydict option" where
  "analysis_of r =
     (case body r of
        PDict d \<Rightarrow> (case map_of d ''analysis'' of Some (PDict a) \<Rightarrow> Some a | _ \<Rightarrow> None)
      | _ \<Rightarrow> None)"

definition analyzer_called :: "event list \<Rightarrow> bool" where
  "analyzer_called tr = list_ex (\<lambda>ev. case ev of EvAnalyze df n \<Rightarrow> True | _ \<Rightarrow> False) tr"

definition insight_requests :: "event list \<Rightarrow> pyval list" where
  "insight_requests tr = concat (map (\<lambda>ev. case ev of EvInsight p \<Rightarrow> [p] | _ \<Rightarrow> []) tr)"

text \<open>The part of a response that comes from the engine.\<close>

definition report_part :: "response \<Rightarrow> (pyval option \<times> pyval option \<times> pyval option) option" where
  "report_part r =
     map_option (\<lambda>a. (map_of a ''table_scores'', map_of a ''field_analyses'', map_of a ''issues''))
       (analysis_of r)"


section \<open>The review route\<close>

text \<open>
  A row of \<^verbatim>\<open>dq_insights\<close> (class \<^verbatim>\<open>DQInsight\<close>): the four columns that
  \<^verbatim>\<open>review_insight\<close> writes. The other columns stay in the record extension and are
  carried along. \<^verbatim>\<open>is_approved\<close> and \<^verbatim>\<open>reviewed_by\<close> hold whatever the request sent.
\<close>

record dq_insight =
  is_reviewed :: bool
  is_approved :: pyval
  reviewed_by :: pyval
  reviewed_at :: "nat option"

text \<open>
  A session: the rows as committed in the database, and the objects changed in the
  session and not yet committed.
\<close>

record 'r db_session =
  persisted :: "nat \<rightharpoonup> 'r"
  pending :: "nat \<rightharpoonup> 'r"

text \<open>\<^verbatim>\<open>Session()\<close>: a new session on the database, nothing pending.\<close>

definition new_session :: "(nat \<rightharpoonup> 'r) \<Rightarrow> 'r db_session" where
  "new_session db = \<lparr>persisted = db, pending = Map.empty\<rparr>"

text \<open>\<^verbatim>\<open>session.query(DQInsight).filter_by(id=i).first()\<close>\<close>

definition session_first :: "'r db_session \<Rightarrow> nat \<Rightarrow> 'r option" where
  "session_first s i = (case pending s i of Some r \<Rightarrow> Some r | None \<Rightarrow> persisted s i)"

text \<open>An attribute assignment on the loaded object \<open>i\<close>.\<close>

definition session_set :: "'r db_session \<Rightarrow> nat \<Rightarrow> 'r \<Rightarrow> 'r db_session" where
  "session_set s i r = s\<lparr>pending := (pending s)(i \<mapsto> r)\<rparr>"

text \<open>\<^verbatim>\<open>session.commit()\<close>, when the database accepts it.\<close>

definition session_commit :: "'r db_session \<Rightarrow> 'r db_session" where
  "session_commit s = \<lparr>persisted = persisted s ++ pending s, pending = Map.empty\<rparr>"

text \<open>\<^verbatim>\<open>session.rollback()\<close> and \<^verbatim>\<open>session.close()\<close> drop what is pending.\<close>

definition session_rollback :: "'r db_session \<Rightarrow> 'r db_session" where
  "session_rollback s = s\<lparr>pending := Map.empty\<rparr>"

definition session_close :: "'r db_session \<Rightarrow> 'r db_session" where
  "session_close s = s\<lparr>pending := Map.empty\<rparr>"

text \<open>
  What one review request meets: the JSON body (\<^verbatim>\<open>request.json\<close> may raise), a query or
  a commit that may raise, and the clock.
\<close>

record review_env =
  request_json :: "exn + pyval"
  first_error :: "exn option"
  commit_error :: "exn option"
  timestamp_now :: nat

text \<open>\<^verbatim>\<open>data.get(k, default)\<close> on the request body: only a dict has \<^verbatim>\<open>get\<close>.\<close>

definition body_get :: "pyval \<Rightarrow> string \<Rightarrow> pyval \<Rightarrow> exn + pyval" where
  "body_get data k dflt =
     (case data of
        PDict d \<Rightarrow> Inr (get_default d k dflt)
      | v \<Rightarrow> Inl (AttributeError
                 ([CHR 0x27] @ type_name v @ [CHR 0x27] @ '' object has no attribute ''
                  @ [CHR 0x27] @ ''get'' @ [CHR 0x27])))"

text \<open>
  The \<^verbatim>\<open>except Exception\<close> branch followed by \<^verbatim>\<open>finally\<close> (lines 374-378): rollback,
  the 500 response, close.
\<close>

definition review_failed ::
  "exn \<Rightarrow> event list \<Rightarrow> 'r db_session \<Rightarrow> response \<times> event list \<times> (nat \<rightharpoonup> 'r)" where
  "review_failed e evs s =
     (error_response 500 (str_exn e), evs @ [EvRollback, EvClose],
      persisted (session_close (session_rollback s)))"

text \<open>
  \<^verbatim>\<open>review_insight(insight_id)\<close>, lines 351-378, on the database \<open>db\<close>. The result holds
  the response, the calls made and the database after the request.
\<close>

definition review_insight ::
  "review_env \<Rightarrow> (nat \<rightharpoonup> 'z dq_insight_scheme) \<Rightarrow> nat \<Rightarrow>
     response \<times> event list \<times> (nat \<rightharpoonup> 'z dq_insight_scheme)" where
  "review_insight R db insight_id =
     (let s0 = new_session db in
      case request_json R of
        Inl e \<Rightarrow> review_failed e [] s0
      | Inr data \<Rightarrow>
          (case first_error R of
             Some e \<Rightarrow> review_failed e [EvQueryInsight insight_id] s0
           | None \<Rightarrow>
               (case session_first s0 insight_id of
                  None \<Rightarrow>
                    (error_response 404 ''Insight not found'',
                     [EvQueryInsight insight_id, EvClose],
                     persisted (session_close s0))
                | Some insight \<Rightarrow>
                    (let i1 = insight\<lparr>is_reviewed := True\<rparr>;
                         s1 = session_set s0 insight_id i1
                     in case body_get data ''approved'' (PBool False) of
                          Inl e \<Rightarrow> review_failed e [EvQueryInsight insight_id] s1
                        | Inr approved \<Rightarrow>
                            (let i2 = i1\<lparr>is_approved := approved\<rparr>;
                                 s2 = session_set s1 insight_id i2
                             in case body_get data ''reviewer'' (PStr ''Admin'') of
                                  Inl e \<Rightarrow> review_failed e [EvQueryInsight insight_id] s2
                                | Inr reviewer \<Rightarrow>
                                    (let i3 = i2\<lparr>reviewed_by := reviewer,
                                                  reviewed_at := Some (timestamp_now R)\<rparr>;
                                         s3 = session_set s2 insight_id i3
                                     in case commit_error R of
                                          Some e \<Rightarrow>
                                            review_failed e
                                              [EvQueryInsight insight_id, EvCommit] s3
                                        | None \<Rightarrow>
                                            (\<lparr>status = 200,
                                              body = PDict
                                                [(''success'', PBool True),
                                                 (''message'',
                                                  PStr ''Insight reviewed successfully'')]\<rparr>,
                                             [EvQueryInsight insight_id, EvCommit, EvClose],
                                             persisted
                                               (session_close (session_commit s3)))))))))"

section \<open>Requests served by one process\<close>

text \<open>
  Line 40 creates \<^verbatim>\<open>dq_analyzer = DataQualityAnalyzer()\<close> once, when the module is
  loaded; each analysis request uses this instance and leaves it to the next request.
\<close>

datatype request = TableRequest string | CsvRequest "upload option"

fun handle ::
  "'a analyzer_class \<Rightarrow> env \<Rightarrow> 'a \<Rightarrow> request \<Rightarrow> response \<times> event list \<times> 'a" where
  "handle cls E az (TableRequest table_name) = analyze_table cls E az table_name"
| "handle cls E az (CsvRequest file) = analyze_csv cls E az file"

text \<open>The responses to a sequence of requests, each met in its own environment.\<close>

fun serve :: "'a analyzer_class \<Rightarrow> 'a \<Rightarrow> (env \<times> request) list \<Rightarrow> response list" where
  "serve cls az [] = []"
| "serve cls az ((E, rq) # rest) =
     (case handle cls E az rq of (r, tr, az') \<Rightarrow> r # serve cls az' rest)"

definition run_app :: "'a analyzer_class \<Rightarrow> (env \<times> request) list \<Rightarrow> response list" where
  "run_app cls reqs = serve cls (construct cls) reqs"

section \<open>The scoring engine, modelled from the specification\<close>

text \<open>
  Modelled from the spec: the scoring engine (class \<^verbatim>\<open>DataQualityAnalyzer\<close> of
  src/services/dq_analyzer.py) is not among the sources. This section follows sections
  3, 4 and 7 of the specification. Scores are exact rationals. What the specification
  leaves open is a parameter (record \<open>rules\<close>): the recognisers of numbers, dates, emails
  and phone numbers, the identifier heuristic, the structural pattern of a value, the
  case normalisation and the sample bound.
\<close>

datatype inferred_type =
  Numeric | Integer | Date | Email | Phone | Categorical | Text | Identifier | Boolean | Unknown

datatype severity = Critical | High | Medium | Low | Info

datatype issue_kind =
  MissingValues | FormatViolation | OutOfRange | DuplicateKey | DuplicateValues
  | FormatInconsistency

datatype grade = GradeA | GradeB | GradeC | GradeD | GradeF

datatype engine_error = InputError string

record issue =
  issue_type :: issue_kind
  issue_severity :: severity
  issue_description :: string
  issue_field :: string
  issue_affected :: "nat option"

record scores =
  completeness_score :: rat
  correctness_score :: rat
  uniqueness_score :: rat
  consistency_score :: rat
  overall_score :: rat
  quality_grade :: grade

record field_analysis = scores +
  field_name :: string
  data_type :: inferred_type

record report =
  table_scores :: scores
  field_analyses :: "field_analysis list"
  issues :: "issue list"

record rules =
  sample_bound :: nat
  number_of :: "string \<Rightarrow> rat option"
  matches_date :: "string \<Rightarrow> bool"
  date_in_range :: "string \<Rightarrow> bool"
  matches_email :: "string \<Rightarrow> bool"
  matches_phone :: "string \<Rightarrow> bool"
  suggests_identifier :: "string \<Rightarrow> string list \<Rightarrow> bool"
  structural_pattern :: "string \<Rightarrow> string"
  normalize_case :: "string \<Rightarrow> string"

text \<open>
  Modelled from the spec: the optional configuration of section 6 (dimension weights,
  plausible-range bounds per column, categorical threshold) and the allow-list of 4.3.
\<close>

record config =
  weights :: "(rat \<times> rat \<times> rat \<times> rat) option"
  plausible_range :: "string \<Rightarrow> (rat \<times> rat) option"
  categorical_max_distinct :: nat
  categorical_max_percent :: nat
  allow_list :: "string \<Rightarrow> string list option"

text \<open>
  Modelled from the spec: no override weights (4.6), at most 20 distinct values or 10% of
  the rows for a categorical column (4.1); the specification names no default range or
  allow-list.
\<close>

definition default_config :: config where
  "default_config =
     \<lparr>weights = None, plausible_range = (\<lambda>name. None), categorical_max_distinct = 20,
      categorical_max_percent = 10, allow_list = (\<lambda>name. None)\<rparr>"

subsection \<open>Columns and missing values\<close>

definition is_space :: "char \<Rightarrow> bool" where
  "is_space c = (c = CHR '' '' \<or> c = CHR 0x09 \<or> c = CHR 0x0A \<or> c = CHR 0x0D)"

text \<open>Modelled from the spec: a blank or whitespace-only string (4.2).\<close>

definition blank :: "string \<Rightarrow> bool" where
  "blank s = list_all is_space s"

text \<open>Modelled from the spec: the values of one column, an absent entry being null (3).\<close>

definition column_values :: "dataset \<Rightarrow> string \<Rightarrow> cell list" where
  "column_values ds c = map (\<lambda>r. case map_of r c of None \<Rightarrow> None | Some v \<Rightarrow> v) (rows ds)"

text \<open>
  Modelled from the spec: the non-null, non-blank values of a column, in row order; null
  markers, blank and whitespace-only strings count as missing (4.2).
\<close>

definition present_values :: "cell list \<Rightarrow> string list" where
  "present_values vs =
     List.map_filter (\<lambda>v. case v of None \<Rightarrow> None | Some s \<Rightarrow> if blank s then None else Some s) vs"

definition count_where :: "('a \<Rightarrow> bool) \<Rightarrow> 'a list \<Rightarrow> nat" where
  "count_where P xs = length (filter P xs)"

text \<open>Modelled from the spec: 100 times a count over a total (4.2 to 4.5).\<close>

definition percent :: "nat \<Rightarrow> nat \<Rightarrow> rat" where
  "percent k n = 100 * of_nat k / of_nat n"

definition make_issue :: "issue_kind \<Rightarrow> severity \<Rightarrow> string \<Rightarrow> string \<Rightarrow> nat \<Rightarrow> issue" where
  "make_issue k sev text name n =
     \<lparr>issue_type = k, issue_severity = sev, issue_description = text, issue_field = name,
      issue_affected = Some n\<rparr>"

subsection \<open>Type Inferrer (4.1)\<close>

definition mostly_numeric :: "rules \<Rightarrow> string list \<Rightarrow> bool" where
  "mostly_numeric R sample =
     (100 * count_where (\<lambda>v. number_of R v = None) sample \<le> 5 * length sample)"

definition no_fractions :: "rules \<Rightarrow> string list \<Rightarrow> bool" where
  "no_fractions R sample =
     list_all (\<lambda>v. case number_of R v of None \<Rightarrow> True | Some x \<Rightarrow> of_int \<lfloor>x\<rfloor> = x) sample"

definition at_least_90 :: "(string \<Rightarrow> bool) \<Rightarrow> string list \<Rightarrow> bool" where
  "at_least_90 P sample = (90 * length sample \<le> 100 * count_where P sample)"

text \<open>
  Modelled from the spec: the ordered chain (a) to (f) of 4.1 as a list of predicates
  and tags (section 9), evaluated in sequence so that the earliest type wins. \<open>nrows\<close> is
  the row count of the dataset. "Above a 90% threshold" is read as at least 90%.
\<close>

definition classifiers ::
  "rules \<Rightarrow> config \<Rightarrow> string \<Rightarrow> nat \<Rightarrow> ((string list \<Rightarrow> bool) \<times> inferred_type) list" where
  "classifiers R cfg name nrows =
     [(\<lambda>s. mostly_numeric R s \<and> no_fractions R s, Integer),
      (\<lambda>s. mostly_numeric R s, Numeric),
      (at_least_90 (matches_date R), Date),
      (at_least_90 (matches_email R), Email),
      (at_least_90 (matches_phone R), Phone),
      (suggests_identifier R name, Identifier),
      (\<lambda>s. length (remdups s) \<le> categorical_max_distinct cfg \<or>
            100 * length (remdups s) \<le> categorical_max_percent cfg * nrows, Categorical)]"

fun first_match :: "(('a \<Rightarrow> bool) \<times> 'b) list \<Rightarrow> 'a \<Rightarrow> 'b \<Rightarrow> 'b" where
  "first_match [] x otherwise = otherwise"
| "first_match ((p, t) # ps) x otherwise = (if p x then t else first_match ps x otherwise)"

text \<open>
  Modelled from the spec: the type of a column from a sample of its first non-missing
  values, up to the bound; unknown only for a column without values; text when no
  classifier applies (4.1).
\<close>

definition infer_type :: "rules \<Rightarrow> config \<Rightarrow> string \<Rightarrow> cell list \<Rightarrow> inferred_type" where
  "infer_type R cfg name vs =
     (let vals = present_values vs;
          sample = take (sample_bound R) vals
      in if vals = [] then Unknown
         else first_match (classifiers R cfg name (length vs)) sample Text)"

subsection \<open>Completeness Scorer (4.2)\<close>

text \<open>
  Modelled from the spec: 100 times the non-missing count over the row count; with zero
  rows the score defaults to 100 (4.8).
\<close>

definition completeness :: "cell list \<Rightarrow> rat" where
  "completeness vs =
     (if vs = [] then 100 else percent (length (present_values vs)) (length vs))"

text \<open>Modelled from the spec: the severity bands of the missing ratio (4.2).\<close>

definition missing_severity :: "nat \<Rightarrow> nat \<Rightarrow> severity" where
  "missing_severity missing n =
     (if 50 * n \<le> 100 * missing then Critical
      else if 20 * n \<le> 100 * missing then High
      else if 5 * n \<le> 100 * missing then Medium
      else Low)"

definition completeness_issues :: "string \<Rightarrow> cell list \<Rightarrow> issue list" where
  "completeness_issues name vs =
     (let missing = length vs - length (present_values vs)
      in if 0 < missing
         then [make_issue MissingValues (missing_severity missing (length vs))
                 ''missing values'' name missing]
         else [])"

subsection \<open>Correctness Validator (4.3)\<close>

definition in_range :: "(rat \<times> rat) option \<Rightarrow> rat \<Rightarrow> bool" where
  "in_range bounds x = (case bounds of None \<Rightarrow> True | Some (lo, hi) \<Rightarrow> lo \<le> x \<and> x \<le> hi)"

text \<open>
  Modelled from the spec: the format rule of each type; identifier, categorical and text
  (and boolean, for which the specification names no rule) are correct unless the
  caller supplies an allow-list.
\<close>

definition format_ok :: "rules \<Rightarrow> config \<Rightarrow> string \<Rightarrow> inferred_type \<Rightarrow> string \<Rightarrow> bool" where
  "format_ok R cfg name ty s =
     (case ty of
        Numeric \<Rightarrow> number_of R s \<noteq> None
      | Integer \<Rightarrow> number_of R s \<noteq> None
      | Date \<Rightarrow> matches_date R s
      | Email \<Rightarrow> matches_email R s
      | Phone \<Rightarrow> matches_phone R s
      | _ \<Rightarrow> (case allow_list cfg name of None \<Rightarrow> True | Some allowed \<Rightarrow> s \<in> set allowed))"

text \<open>Modelled from the spec: the plausible range of numbers and dates.\<close>

definition range_ok :: "rules \<Rightarrow> config \<Rightarrow> string \<Rightarrow> inferred_type \<Rightarrow> string \<Rightarrow> bool" where
  "range_ok R cfg name ty s =
     (case ty of
        Numeric \<Rightarrow> (case number_of R s of
                      None \<Rightarrow> True | Some x \<Rightarrow> in_range (plausible_range cfg name) x)
      | Integer \<Rightarrow> (case number_of R s of
                      None \<Rightarrow> True | Some x \<Rightarrow> in_range (plausible_range cfg name) x)
      | Date \<Rightarrow> date_in_range R s
      | _ \<Rightarrow> True)"

definition value_ok :: "rules \<Rightarrow> config \<Rightarrow> string \<Rightarrow> inferred_type \<Rightarrow> string \<Rightarrow> bool" where
  "value_ok R cfg name ty s = (format_ok R cfg name ty s \<and> range_ok R cfg name ty s)"

text \<open>
  Modelled from the spec: 100 times the values that satisfy the rule over the
  non-missing values; 100 for a column without values.
\<close>

definition correctness ::
  "rules \<Rightarrow> config \<Rightarrow> string \<Rightarrow> inferred_type \<Rightarrow> string list \<Rightarrow> rat" where
  "correctness R cfg name ty vals =
     (if vals = [] then 100
      else percent (count_where (value_ok R cfg name ty) vals) (length vals))"

text \<open>
  Modelled from the spec: at most one issue of each kind for a field; severity high
  when more than 20% of the values violate the rule, medium otherwise.
\<close>

definition correctness_issues ::
  "rules \<Rightarrow> config \<Rightarrow> string \<Rightarrow> inferred_type \<Rightarrow> string list \<Rightarrow> issue list" where
  "correctness_issues R cfg name ty vals =
     (let bad = count_where (\<lambda>s. \<not> value_ok R cfg name ty s) vals;
          bad_format = count_where (\<lambda>s. \<not> format_ok R cfg name ty s) vals;
          bad_range = count_where (\<lambda>s. format_ok R cfg name ty s \<and> \<not> range_ok R cfg name ty s) vals;
          sev = (if 20 * length vals < 100 * bad then High else Medium)
      in (if 0 < bad_format
          then [make_issue FormatViolation sev ''format violation'' name bad_format] else [])
         @ (if 0 < bad_range
            then [make_issue OutOfRange sev ''value out of range'' name bad_range] else []))"

subsection \<open>Uniqueness Scorer (4.4)\<close>

text \<open>
  Modelled from the spec: 100 times the distinct values over the non-missing values; 100
  for a column without values.
\<close>

definition uniqueness :: "string list \<Rightarrow> rat" where
  "uniqueness vals =
     (if vals = [] then 100 else percent (length (remdups vals)) (length vals))"

definition uniqueness_issues :: "string \<Rightarrow> inferred_type \<Rightarrow> string list \<Rightarrow> issue list" where
  "uniqueness_issues name ty vals =
     (let duplicates = length vals - length (remdups vals)
      in if 0 < duplicates
         then (if ty = Identifier
               then [make_issue DuplicateKey Critical ''duplicate key'' name duplicates]
               else [make_issue DuplicateValues Medium ''duplicate values'' name duplicates])
         else [])"

subsection \<open>Consistency Scorer (4.5)\<close>

definition pattern_typed :: "inferred_type \<Rightarrow> bool" where
  "pattern_typed ty = (ty = Numeric \<or> ty = Integer \<or> ty = Date \<or> ty = Phone \<or> ty = Email)"

text \<open>The number of occurrences of the most common element.\<close>

definition most_common_count :: "'a list \<Rightarrow> nat" where
  "most_common_count xs = foldr (\<lambda>x m. max (count_where (\<lambda>y. y = x) xs) m) xs 0"

definition trim :: "string \<Rightarrow> string" where
  "trim s = rev (dropWhile is_space (rev (dropWhile is_space s)))"

text \<open>Modelled from the spec: the trimmed, case-normalised form of a value.\<close>

definition canonical :: "rules \<Rightarrow> string \<Rightarrow> string" where
  "canonical R s = normalize_case R (trim s)"

text \<open>
  Modelled from the spec: for date, numeric, phone and email columns the values that
  share the most common structural pattern; for the other columns (the specification
  names categorical and text) the values equal to their canonical form.
\<close>

definition consistent_count :: "rules \<Rightarrow> inferred_type \<Rightarrow> string list \<Rightarrow> nat" where
  "consistent_count R ty vals =
     (if pattern_typed ty then most_common_count (map (structural_pattern R) vals)
      else count_where (\<lambda>s. canonical R s = s) vals)"

definition consistency :: "rules \<Rightarrow> inferred_type \<Rightarrow> string list \<Rightarrow> rat" where
  "consistency R ty vals =
     (if vals = [] then 100 else percent (consistent_count R ty vals) (length vals))"

definition consistency_issues ::
  "rules \<Rightarrow> string \<Rightarrow> inferred_type \<Rightarrow> string list \<Rightarrow> issue list" where
  "consistency_issues R name ty vals =
     (let deviating = length vals - consistent_count R ty vals
      in if 0 < deviating
         then [make_issue FormatInconsistency Medium ''format inconsistency'' name deviating]
         else [])"

subsection \<open>Aggregator (4.6)\<close>

text \<open>
  Modelled from the spec: weight 0.25 each, or the caller's weights renormalised to sum
  to 1. The specification does not say what happens to weights that sum to zero; the
  division is then undefined in the source and 0 here.
\<close>

definition normalized_weights :: "config \<Rightarrow> rat \<times> rat \<times> rat \<times> rat" where
  "normalized_weights cfg =
     (case weights cfg of
        None \<Rightarrow> (1 / 4, 1 / 4, 1 / 4, 1 / 4)
      | Some (w1, w2, w3, w4) \<Rightarrow>
          (w1 / (w1 + w2 + w3 + w4), w2 / (w1 + w2 + w3 + w4),
           w3 / (w1 + w2 + w3 + w4), w4 / (w1 + w2 + w3 + w4)))"

definition field_overall :: "config \<Rightarrow> rat \<Rightarrow> rat \<Rightarrow> rat \<Rightarrow> rat \<Rightarrow> rat" where
  "field_overall cfg c r u k =
     (case normalized_weights cfg of (w1, w2, w3, w4) \<Rightarrow> w1 * c + w2 * r + w3 * u + w4 * k)"

text \<open>Modelled from the spec: the grade bands of 4.6, the first band reached wins.\<close>

definition grade_bands :: "(rat \<times> grade) list" where
  "grade_bands = [(90, GradeA), (75, GradeB), (60, GradeC), (40, GradeD)]"

definition grade_of :: "rat \<Rightarrow> grade" where
  "grade_of s =
     (case find (\<lambda>(threshold, g). threshold \<le> s) grade_bands of
        Some (threshold, g) \<Rightarrow> g
      | None \<Rightarrow> GradeF)"

definition mean :: "rat list \<Rightarrow> rat" where
  "mean xs = sum_list xs / of_nat (length xs)"

text \<open>
  Modelled from the spec: the table scores are the unweighted means over the fields, of
  each dimension and of the overall scores.
\<close>

definition aggregate :: "field_analysis list \<Rightarrow> scores" where
  "aggregate fas =
     \<lparr>completeness_score = mean (map completeness_score fas),
      correctness_score = mean (map correctness_score fas),
      uniqueness_score = mean (map uniqueness_score fas),
      consistency_score = mean (map consistency_score fas),
      overall_score = mean (map overall_score fas),
      quality_grade = grade_of (mean (map overall_score fas))\<rparr>"

subsection \<open>Issue Collector (4.7) and Orchestrator (4.8)\<close>

text \<open>
  Modelled from the spec: issues by severity (critical, high, medium, low, info), within
  one severity in the order collected, which is field declaration order.
\<close>

definition order_issues :: "issue list \<Rightarrow> issue list" where
  "order_issues collected =
     concat (map (\<lambda>sev. filter (\<lambda>i. issue_severity i = sev) collected)
                 [Critical, High, Medium, Low, Info])"

text \<open>
  Modelled from the spec: one column: its type once, the four scorers, the field score
  and grade, and the issues the scorers emit.
\<close>

definition analyze_field ::
  "rules \<Rightarrow> config \<Rightarrow> string \<Rightarrow> cell list \<Rightarrow> field_analysis \<times> issue list" where
  "analyze_field R cfg name vs =
     (let vals = present_values vs;
          ty = infer_type R cfg name vs;
          c = completeness vs;
          r = correctness R cfg name ty vals;
          u = uniqueness vals;
          k = consistency R ty vals;
          overall = field_overall cfg c r u k
      in (\<lparr>completeness_score = c, correctness_score = r, uniqueness_score = u,
           consistency_score = k, overall_score = overall, quality_grade = grade_of overall,
           field_name = name, data_type = ty\<rparr>,
          completeness_issues name vs @ correctness_issues R cfg name ty vals
            @ uniqueness_issues name ty vals @ consistency_issues R name ty vals))"

text \<open>
  Modelled from the spec: the input contract: at least one column, and every row has
  exactly the declared columns (3, 4.8).
\<close>

definition input_contract :: "dataset \<Rightarrow> bool" where
  "input_contract ds =
     (columns ds \<noteq> [] \<and> list_all (\<lambda>r. set (map fst r) = set (columns ds)) (rows ds))"

text \<open>
  Modelled from the spec: \<^verbatim>\<open>analyze(dataset, label)\<close> with a configuration: InputError for
  a malformed dataset, the full report otherwise. The label is a display name only.
\<close>

definition analyze_with ::
  "rules \<Rightarrow> config \<Rightarrow> dataset \<Rightarrow> string \<Rightarrow> engine_error + report" where
  "analyze_with R cfg ds label =
     (if columns ds = [] then Inl (InputError ''dataset has no columns'')
      else if \<not> input_contract ds then Inl (InputError ''rows with inconsistent column sets'')
      else
        (let results = map (\<lambda>c. analyze_field R cfg c (column_values ds c)) (columns ds);
             fas = map fst results
         in Inr \<lparr>table_scores = aggregate fas, field_analyses = fas,
                 issues = order_issues (concat (map snd results))\<rparr>))"

definition analyze :: "rules \<Rightarrow> dataset \<Rightarrow> string \<Rightarrow> engine_error + report" where
  "analyze R ds label = analyze_with R default_config ds label"

text \<open>Override weights that can be renormalised: none negative, not all zero.\<close>

definition weights_ok :: "config \<Rightarrow> bool" where
  "weights_ok cfg =
     (case weights cfg of
        None \<Rightarrow> True
      | Some (w1, w2, w3, w4) \<Rightarrow>
          0 \<le> w1 \<and> 0 \<le> w2 \<and> 0 \<le> w3 \<and> 0 \<le> w4 \<and> 0 < w1 + w2 + w3 + w4)"

definition in_bounds :: "rat \<Rightarrow> bool" where
  "in_bounds s = (0 \<le> s \<and> s \<le> 100)"

definition scores_in_bounds :: "'z scores_scheme \<Rightarrow> bool" where
  "scores_in_bounds sc =
     (in_bounds (completeness_score sc) \<and> in_bounds (correctness_score sc) \<and>
      in_bounds (uniqueness_score sc) \<and> in_bounds (consistency_score sc) \<and>
      in_bounds (overall_score sc))"

subsection \<open>The engine as the analyzer of the web layer\<close>

definition grade_name :: "grade \<Rightarrow> string" where
  "grade_name g =
     (case g of GradeA \<Rightarrow> ''A'' | GradeB \<Rightarrow> ''B'' | GradeC \<Rightarrow> ''C'' | GradeD \<Rightarrow> ''D''
      | GradeF \<Rightarrow> ''F'')"

definition inferred_type_name :: "inferred_type \<Rightarrow> string" where
  "inferred_type_name ty =
     (case ty of Numeric \<Rightarrow> ''numeric'' | Integer \<Rightarrow> ''integer'' | Date \<Rightarrow> ''date''
      | Email \<Rightarrow> ''email'' | Phone \<Rightarrow> ''phone'' | Categorical \<Rightarrow> ''categorical''
      | Text \<Rightarrow> ''text'' | Identifier \<Rightarrow> ''identifier'' | Boolean \<Rightarrow> ''boolean''
      | Unknown \<Rightarrow> ''unknown'')"

definition severity_name :: "severity \<Rightarrow> string" where
  "severity_name sev =
     (case sev of Critical \<Rightarrow> ''critical'' | High \<Rightarrow> ''high'' | Medium \<Rightarrow> ''medium''
      | Low \<Rightarrow> ''low'' | Info \<Rightarrow> ''info'')"

definition issue_kind_name :: "issue_kind \<Rightarrow> string" where
  "issue_kind_name k =
     (case k of MissingValues \<Rightarrow> ''missing_values'' | FormatViolation \<Rightarrow> ''format_violation''
      | OutOfRange \<Rightarrow> ''out_of_range'' | DuplicateKey \<Rightarrow> ''duplicate_key''
      | DuplicateValues \<Rightarrow> ''duplicate_values''
      | FormatInconsistency \<Rightarrow> ''format_inconsistency'')"

definition scores_to_py :: "'z scores_scheme \<Rightarrow> pydict" where
  "scores_to_py sc =
     [(''completeness_score'', PNum (completeness_score sc)),
      (''correctness_score'', PNum (correctness_score sc)),
      (''uniqueness_score'', PNum (uniqueness_score sc)),
      (''consistency_score'', PNum (consistency_score sc)),
      (''overall_score'', PNum (overall_score sc)),
      (''quality_grade'', PStr (grade_name (quality_grade sc)))]"

definition field_to_py :: "field_analysis \<Rightarrow> pyval" where
  "field_to_py fa =
     PDict ([(''field_name'', PStr (field_name fa)),
             (''data_type'', PStr (inferred_type_name (data_type fa)))] @ scores_to_py fa)"

definition issue_to_py :: "issue \<Rightarrow> pyval" where
  "issue_to_py i =
     PDict [(''type'', PStr (issue_kind_name (issue_type i))),
            (''severity'', PStr (severity_name (issue_severity i))),
            (''description'', PStr (issue_description i)),
            (''field'', PStr (issue_field i)),
            (''affected'', case issue_affected i of None \<Rightarrow> PNone | Some n \<Rightarrow> PInt (int n))]"

text \<open>The report as the JSON-serialisable map of section 6.\<close>

definition report_to_py :: "report \<Rightarrow> pydict" where
  "report_to_py rep =
     [(''table_scores'', PDict (scores_to_py (table_scores rep))),
      (''field_analyses'', PList (map field_to_py (field_analyses rep))),
      (''issues'', PList (map issue_to_py (issues rep)))]"

text \<open>
  Modelled from the spec: the engine in the place of \<^verbatim>\<open>DataQualityAnalyzer\<close>: the
  instance holds the configuration, \<^verbatim>\<open>analyze_dataframe\<close> is \<^verbatim>\<open>analyze\<close> and leaves the
  instance as it is (section 5: no state across calls).
\<close>

definition spec_analyzer :: "rules \<Rightarrow> config analyzer_class" where
  "spec_analyzer R =
     \<lparr>construct = default_config,
      analyze_dataframe =
        (\<lambda>cfg df label.
           (case analyze_with R cfg df label of
              Inl (InputError msg) \<Rightarrow> Inl (Raised msg)
            | Inr rep \<Rightarrow> Inr (report_to_py rep),
            cfg))\<rparr>"

section \<open>Example inputs\<close>

definition sample_report :: pydict where
  "sample_report =
     [(''table_scores'', PDict [(''completeness_score'', PNum 100), (''correctness_score'', PNum 100),
                               (''uniqueness_score'', PNum 100), (''consistency_score'', PNum 100),
                               (''overall_score'', PNum 100), (''quality_grade'', PStr ''A'')]),
      (''field_analyses'', PList []),
      (''issues'', PList [])]"

text \<open>An analyzer without state that returns the same report for every dataset.\<close>

definition fixed_analyzer :: "pydict \<Rightarrow> unit analyzer_class" where
  "fixed_analyzer rep = \<lparr>construct = (), analyze_dataframe = (\<lambda>az df name. (Inr rep, az))\<rparr>"

definition sample_table :: dataset where
  "sample_table = \<lparr>columns = [''id''], rows = [[(''id'', Some ''1'')]]\<rparr>"

definition empty_table :: dataset where
  "empty_table = \<lparr>columns = [''id''], rows = []\<rparr>"

definition sample_insights :: pyval where
  "sample_insights = PDict [(''success'', PBool True), (''insights'', PStr ''no issues'')]"

text \<open>Employees has one row, the other tables are empty; every collaborator answers.\<close>

definition sample_env :: env where
  "sample_env =
     \<lparr>db_table = (\<lambda>m. if m = Employee then sample_table else empty_table),
      query_error = (\<lambda>m. None),
      read_sql_error = (\<lambda>m. None),
      read_csv = (\<lambda>f. Inr sample_table),
      analyze_table_quality = (\<lambda>p. Inr sample_insights),
      detect_domain_single_word = (\<lambda>cols name. Inr (PStr ''HR''))\<rparr>"

text \<open>The same, with an insight generator that raises on every call.\<close>

definition failing_llm_env :: env where
  "failing_llm_env =
     sample_env\<lparr>analyze_table_quality := (\<lambda>p. Inl (Raised ''connection refused''))\<rparr>"

definition sample_upload :: upload where
  "sample_upload = \<lparr>filename = ''staff.csv'', content = ''id''\<rparr>"





text \<open>An analyzer that keeps the names it has analysed in the instance and reports them.\<close>

definition accumulating_analyzer :: "pyval list analyzer_class" where
  "accumulating_analyzer =
     \<lparr>construct = [],
      analyze_dataframe =
        (\<lambda>seen df name.
           (Inr (setitem ''issues'' (PList (seen @ [PStr name])) sample_report),
            seen @ [PStr name]))\<rparr>"

text \<open>Simple recognisers for the examples.\<close>

definition is_digit :: "char \<Rightarrow> bool" where
  "is_digit c = (48 \<le> (of_char c :: nat) \<and> (of_char c :: nat) \<le> 57)"

definition decimal_value :: "string \<Rightarrow> rat option" where
  "decimal_value s =
     (if s \<noteq> [] \<and> list_all is_digit s
      then Some (of_nat (foldl (\<lambda>a c. 10 * a + (of_char c - 48)) 0 s))
      else None)"

definition simple_rules :: rules where
  "simple_rules =
     \<lparr>sample_bound = 1000,
      number_of = decimal_value,
      matches_date = (\<lambda>s. length s = 10 \<and> s ! 4 = CHR ''-'' \<and> s ! 7 = CHR ''-''),
      date_in_range = (\<lambda>s. True),
      matches_email = (\<lambda>s. CHR ''@'' \<in> set s),
      matches_phone = (\<lambda>s. s \<noteq> [] \<and> hd s = CHR ''+''),
      suggests_identifier = (\<lambda>name sample. name = ''id''),
      structural_pattern = map (\<lambda>c. if is_digit c then CHR ''9'' else c),
      normalize_case = (\<lambda>s. s)\<rparr>"

definition staff :: dataset where
  "staff =
     \<lparr>columns = [''id'', ''email''],
      rows = [[(''id'', Some ''A1''), (''email'', Some ''a@x.org'')],
              [(''id'', Some ''A1''), (''email'', Some [])],
              [(''id'', Some ''A2''), (''email'', None)],
              [(''id'', Some ''A3''), (''email'', Some ''d@x.org'')]]\<rparr>"


text \<open>As \<open>sample_env\<close>, with uploads that hold a header line only.\<close>

definition empty_csv_env :: env where
  "empty_csv_env = sample_env\<lparr>read_csv := (\<lambda>f. Inr empty_table)\<rparr>"

section \<open>Properties of the analysis routes\<close>

lemma map_of_setitem:
  "map_of (setitem k v d) k' = (if k' = k then Some v else map_of d k')"
  by (simp add: setitem_def update_conv')

lemma success_flag_error [simp]: "success_flag (error_response c m) = Some (PBool False)"
  by (simp add: success_flag_def error_response_def)

lemma status_error [simp]: "status (error_response c m) = c"
  by (simp add: error_response_def)

lemma status_analysis [simp]: "status (analysis_response a) = 200"
  by (simp add: analysis_response_def)

lemma success_flag_analysis [simp]: "success_flag (analysis_response a) = Some (PBool True)"
  by (simp add: success_flag_def analysis_response_def)

lemma analysis_of_analysis [simp]: "analysis_of (analysis_response a) = Some a"
  by (simp add: analysis_of_def analysis_response_def)

lemma analysis_of_error [simp]: "analysis_of (error_response c m) = None"
  by (simp add: analysis_of_def error_response_def)

lemma table_map_None_iff:
  "table_map n = None \<longleftrightarrow> n \<notin> {''employees'', ''payroll'', ''invoices'', ''expenses''}"
  by (simp add: table_map_def)

lemma add_ai_insights_events:
  "ev \<in> set (snd (add_ai_insights E n d a)) \<Longrightarrow> \<exists>p. ev = EvInsight p"
  by (auto simp: add_ai_insights_def split: sum.splits)

text \<open>The one path of \<^verbatim>\<open>analyze_table\<close> that ends in a 200 response.\<close>

lemma analyze_table_success:
  assumes "table_map table_name = Some m"
    and "query_error E m = None" and "rows (db_table E m) \<noteq> []"
    and "read_sql_error E m = None"
    and "analyze_dataframe cls az (db_table E m) table_name = (Inr analysis, az')"
    and "add_ai_insights E table_name (PStr ''HR/Finance'') analysis = (a', evs)"
  shows "analyze_table cls E az table_name =
           (analysis_response a',
            [EvQueryAll m, EvReadSql m, EvAnalyze (db_table E m) table_name] @ evs @ [EvClose],
            az')"
  using assms by (simp add: analyze_table_def query_all_def read_sql_def)

lemma analyze_table_ok_inv:
  assumes "status (fst (analyze_table cls E az table_name)) = 200"
  shows "\<exists>m analysis az' a' evs.
           table_map table_name = Some m \<and> query_error E m = None \<and>
           rows (db_table E m) \<noteq> [] \<and> read_sql_error E m = None \<and>
           analyze_dataframe cls az (db_table E m) table_name = (Inr analysis, az') \<and>
           add_ai_insights E table_name (PStr ''HR/Finance'') analysis = (a', evs)"
  using assms
  by (auto simp: analyze_table_def query_all_def read_sql_def
      split: option.splits sum.splits if_splits prod.splits)

text \<open>The analyzer is called on the path above only.\<close>

lemma analyze_table_analyze_event:
  assumes "EvAnalyze df n \<in> set (fst (snd (analyze_table cls E az table_name)))"
  shows "n = table_name \<and> table_map table_name \<noteq> None \<and> rows df \<noteq> []"
proof (cases "table_map table_name")
  case None
  with assms show ?thesis by (simp add: analyze_table_def)
next
  case (Some m)
  show ?thesis
  proof (cases "query_all E m")
    case (Inl e)
    with Some assms show ?thesis by (simp add: analyze_table_def)
  next
    case (Inr data)
    note q = this
    show ?thesis
    proof (cases "data = []")
      case True
      with Some q assms show ?thesis by (simp add: analyze_table_def)
    next
      case False
      note ne = this
      show ?thesis
      proof (cases "read_sql E m")
        case (Inl e)
        with Some q ne assms show ?thesis by (simp add: analyze_table_def)
      next
        case (Inr df')
        note rd = this
        have rows_df: "rows df' \<noteq> []"
          using q ne rd by (auto simp: query_all_def read_sql_def split: option.splits)
        obtain res az' where r: "analyze_dataframe cls az df' table_name = (res, az')"
          by (cases "analyze_dataframe cls az df' table_name")
        show ?thesis
        proof (cases res)
          case (Inl e)
          with Some q ne rd r assms rows_df show ?thesis by (simp add: analyze_table_def)
        next
          case (Inr analysis)
          obtain a' evs where
            ai: "add_ai_insights E table_name (PStr ''HR/Finance'') analysis = (a', evs)"
            by (cases "add_ai_insights E table_name (PStr ''HR/Finance'') analysis")
          have "EvAnalyze df n \<notin> set evs"
            using add_ai_insights_events
              [of "EvAnalyze df n" E table_name "PStr ''HR/Finance''" analysis] ai
            by auto
          with Some q ne rd r Inr ai assms rows_df show ?thesis
            by (simp add: analyze_table_def)
        qed
      qed
    qed
  qed
qed

text \<open>
  C9. A POST to /api/analyze/table/<table_name> with a name other than employees,
  payroll, invoices and expenses is answered with status 400 and success False; a known
  table that the query finds empty is answered with status 404 and success False. On
  both paths \<^verbatim>\<open>analyze_dataframe\<close> is not called, and whenever this route calls it, the
  table is one of the four and the dataset has at least one row.
\<close>

theorem analyze_table_rejects_unknown_and_empty:
  "(table_name \<notin> {''employees'', ''payroll'', ''invoices'', ''expenses''} \<longrightarrow>
      (case analyze_table cls E az table_name of (r, tr, az') \<Rightarrow>
         status r = 400 \<and> success_flag r = Some (PBool False) \<and> \<not> analyzer_called tr)) \<and>
   (table_map table_name = Some m \<and> query_error E m = None \<and> rows (db_table E m) = [] \<longrightarrow>
      (case analyze_table cls E az table_name of (r, tr, az') \<Rightarrow>
         status r = 404 \<and> success_flag r = Some (PBool False) \<and> \<not> analyzer_called tr)) \<and>
   (\<forall>df n. EvAnalyze df n \<in> set (fst (snd (analyze_table cls E az table_name))) \<longrightarrow>
      n \<in> {''employees'', ''payroll'', ''invoices'', ''expenses''} \<and> rows df \<noteq> [])"
proof (intro conjI impI allI)
  assume "table_name \<notin> {''employees'', ''payroll'', ''invoices'', ''expenses''}"
  then have "table_map table_name = None" by (simp add: table_map_None_iff)
  then show "case analyze_table cls E az table_name of (r, tr, az') \<Rightarrow>
         status r = 400 \<and> success_flag r = Some (PBool False) \<and> \<not> analyzer_called tr"
    by (simp add: analyze_table_def analyzer_called_def)
next
  assume "table_map table_name = Some m \<and> query_error E m = None \<and> rows (db_table E m) = []"
  then show "case analyze_table cls E az table_name of (r, tr, az') \<Rightarrow>
         status r = 404 \<and> success_flag r = Some (PBool False) \<and> \<not> analyzer_called tr"
    by (simp add: analyze_table_def query_all_def analyzer_called_def)
next
  fix df n
  assume a: "EvAnalyze df n \<in> set (fst (snd (analyze_table cls E az table_name)))"
  have b: "n = table_name \<and> table_map table_name \<noteq> None \<and> rows df \<noteq> []"
    using analyze_table_analyze_event [OF a] .
  then show "n \<in> {''employees'', ''payroll'', ''invoices'', ''expenses''}"
    by (simp add: table_map_None_iff)
  from b show "rows df \<noteq> []" by simp
qed

theorem analyze_table_rejects_unknown_and_empty_witness:
  "status (fst (analyze_table (fixed_analyzer sample_report) sample_env () ''customers'')) = 400 \<and>
   \<not> analyzer_called
       (fst (snd (analyze_table (fixed_analyzer sample_report) sample_env () ''customers''))) \<and>
   table_map ''payroll'' = Some Payroll \<and> rows (db_table sample_env Payroll) = [] \<and>
   status (fst (analyze_table (fixed_analyzer sample_report) sample_env () ''payroll'')) = 404 \<and>
   \<not> analyzer_called
       (fst (snd (analyze_table (fixed_analyzer sample_report) sample_env () ''payroll''))) \<and>
   EvAnalyze sample_table ''employees''
     \<in> set (fst (snd (analyze_table (fixed_analyzer sample_report) sample_env () ''employees''))) \<and>
   rows sample_table \<noteq> []"
proof -
  have m: "table_map ''payroll'' = Some Payroll" "table_map ''employees'' = Some Employee"
    by (simp_all add: table_map_def)
  have e: "query_error sample_env Payroll = None" "rows (db_table sample_env Payroll) = []"
    by (simp_all add: sample_env_def empty_table_def)
  have ev: "EvAnalyze sample_table ''employees''
     \<in> set (fst (snd (analyze_table (fixed_analyzer sample_report) sample_env () ''employees'')))"
    by (simp add: analyze_table_def m query_all_def read_sql_def sample_env_def
        sample_table_def fixed_analyzer_def add_ai_insights_def split: sum.splits)
  show ?thesis
    using analyze_table_rejects_unknown_and_empty
            [of "''customers''" "fixed_analyzer sample_report" sample_env "()" Payroll]
          analyze_table_rejects_unknown_and_empty
            [of "''payroll''" "fixed_analyzer sample_report" sample_env "()" Payroll]
          analyze_table_rejects_unknown_and_empty
            [of "''employees''" "fixed_analyzer sample_report" sample_env "()" Employee]
          m e ev
    by (auto split: prod.splits)
qed

lemma map_of_foldl_setitem:
  "map_of (foldl (\<lambda>d (k, v). setitem k v d) d items) = map_of d ++ map_of (rev items)"
proof (induction items arbitrary: d)
  case Nil
  show ?case by simp
next
  case (Cons x xs)
  obtain k v where x: "x = (k, v)" by (cases x)
  show ?case
    by (rule ext) (simp add: x Cons.IH map_add_def map_of_setitem split: option.splits)
qed

lemma map_of_dict_display: "map_of (dict_display items) = map_of (rev items)"
  by (simp add: dict_display_def map_of_foldl_setitem)

lemma llm_request_Inr:
  "llm_request n d a = Inr p \<Longrightarrow>
     \<exists>scores issues. map_of a ''table_scores'' = Some (PDict scores) \<and>
        map_of a ''issues'' = Some issues \<and>
        p = PDict (dict_display ([(''table_name'', PStr n), (''domain'', d)] @ scores @
                                 [(''issues'', issues)]))"
  by (auto simp: llm_request_def getitem_def split: option.splits sum.splits pyval.splits)

lemma add_ai_insights_requests:
  "p \<in> set (insight_requests (snd (add_ai_insights E n d a))) \<Longrightarrow>
     llm_request n d a = Inr p \<and>
     fst (add_ai_insights E n d a) =
       setitem ''ai_insights''
         (case analyze_table_quality E p of Inl e \<Rightarrow> insight_failure e | Inr res \<Rightarrow> res) a"
  by (auto simp: add_ai_insights_def insight_requests_def split: sum.splits)


lemma add_ai_insights_sets_key:
  "\<exists>v. fst (add_ai_insights E n d a) = setitem ''ai_insights'' v a"
  by (auto simp: add_ai_insights_def split: sum.splits)


lemma analyze_csv_success:
  assumes "filename f \<noteq> []" and "endswith (filename f) ''.csv''"
    and "read_csv E f = Inr df"
    and "analyze_dataframe cls az df (filename f) = (Inr analysis, az')"
    and "add_ai_insights E (filename f)
           (get_default (add_detected_domain E df (filename f) analysis) ''detected_domain''
              (PStr ''Uploaded Data''))
           (add_detected_domain E df (filename f) analysis) = (a', evs)"
  shows "analyze_csv cls E az (Some f) =
           (analysis_response a',
            [EvReadCsv f, EvAnalyze df (filename f), EvDetectDomain (columns df) (filename f)]
              @ evs,
            az')"
  using assms by (simp add: analyze_csv_def Let_def)

lemma analyze_csv_ok_inv:
  assumes "status (fst (analyze_csv cls E az upl)) = 200"
  shows "\<exists>f df analysis az' a' evs.
           upl = Some f \<and> filename f \<noteq> [] \<and> endswith (filename f) ''.csv'' \<and>
           read_csv E f = Inr df \<and>
           analyze_dataframe cls az df (filename f) = (Inr analysis, az') \<and>
           add_ai_insights E (filename f)
             (get_default (add_detected_domain E df (filename f) analysis) ''detected_domain''
                (PStr ''Uploaded Data''))
             (add_detected_domain E df (filename f) analysis) = (a', evs)"
  using assms
  by (auto simp: analyze_csv_def Let_def
      split: option.splits sum.splits if_splits prod.splits)


lemma add_ai_insights_value:
  "\<exists>v. fst (add_ai_insights E n d a) = setitem ''ai_insights'' v a \<and>
       ((\<exists>e. v = insight_failure e) \<or> (\<exists>req. analyze_table_quality E req = Inr v))"
  by (auto simp: add_ai_insights_def split: sum.splits)

lemma add_detected_domain_value:
  "\<exists>d. add_detected_domain E df n a = setitem ''detected_domain'' d a \<and>
       d = (case detect_domain_single_word E (columns df) n of
              Inl e \<Rightarrow> PStr ''Unknown'' | Inr w \<Rightarrow> w)"
  by (auto simp: add_detected_domain_def split: sum.splits)




text \<open>
  C5, as stated, fails on the database-table route: a successful response of
  \<^verbatim>\<open>analyze_table\<close> has no \<^verbatim>\<open>detected_domain\<close> field.
\<close>

theorem table_route_adds_no_detected_domain:
  "status (fst (analyze_table (fixed_analyzer sample_report) sample_env () ''employees'')) = 200 \<and>
   success_flag (fst (analyze_table (fixed_analyzer sample_report) sample_env () ''employees''))
     = Some (PBool True) \<and>
   map_option (\<lambda>a. map_of a ''detected_domain'')
     (analysis_of (fst (analyze_table (fixed_analyzer sample_report) sample_env ()
        ''employees''))) = Some None"
  by (simp add: analyze_table_def table_map_def query_all_def read_sql_def sample_env_def
      sample_table_def fixed_analyzer_def add_ai_insights_def llm_request_def getitem_def
      sample_report_def dict_display_def setitem_def)

text \<open>
  C5, amended. Every 200 response of an analysis route carries each field of the
  engine's report unchanged (so \<^verbatim>\<open>table_scores\<close>, \<^verbatim>\<open>field_analyses\<close> and \<^verbatim>\<open>issues\<close>
  whenever the engine returned them) and \<^verbatim>\<open>ai_insights\<close>, which is a result of the
  insight generator or a failure record. The CSV route also adds \<^verbatim>\<open>detected_domain\<close>:
  the generator's answer, or \<^verbatim>\<open>'Unknown'\<close> when the detection raises. The database-table
  route adds no other field.
\<close>

theorem successful_report_fields:
  "(status (fst (analyze_table cls E az table_name)) = 200 \<longrightarrow>
      (\<exists>m analysis a' v.
         table_map table_name = Some m \<and>
         fst (analyze_dataframe cls az (db_table E m) table_name) = Inr analysis \<and>
         analysis_of (fst (analyze_table cls E az table_name)) = Some a' \<and>
         (\<forall>k. k \<noteq> ''ai_insights'' \<longrightarrow> map_of a' k = map_of analysis k) \<and>
         map_of a' ''ai_insights'' = Some v \<and>
         ((\<exists>e. v = insight_failure e) \<or> (\<exists>req. analyze_table_quality E req = Inr v)))) \<and>
   (status (fst (analyze_csv cls E az upl)) = 200 \<longrightarrow>
      (\<exists>f df analysis a' v d.
         upl = Some f \<and> read_csv E f = Inr df \<and>
         fst (analyze_dataframe cls az df (filename f)) = Inr analysis \<and>
         analysis_of (fst (analyze_csv cls E az upl)) = Some a' \<and>
         (\<forall>k. k \<noteq> ''ai_insights'' \<and> k \<noteq> ''detected_domain'' \<longrightarrow>
              map_of a' k = map_of analysis k) \<and>
         map_of a' ''ai_insights'' = Some v \<and>
         ((\<exists>e. v = insight_failure e) \<or> (\<exists>req. analyze_table_quality E req = Inr v)) \<and>
         map_of a' ''detected_domain'' = Some d \<and>
         d = (case detect_domain_single_word E (columns df) (filename f) of
                Inl e \<Rightarrow> PStr ''Unknown'' | Inr w \<Rightarrow> w)))"
proof (intro conjI impI)
  assume "status (fst (analyze_table cls E az table_name)) = 200"
  from analyze_table_ok_inv [OF this] obtain m analysis az' a' evs where
    h: "table_map table_name = Some m" "query_error E m = None"
       "rows (db_table E m) \<noteq> []" "read_sql_error E m = None"
       "analyze_dataframe cls az (db_table E m) table_name = (Inr analysis, az')"
       "add_ai_insights E table_name (PStr ''HR/Finance'') analysis = (a', evs)"
    by blast
  have r: "fst (analyze_table cls E az table_name) = analysis_response a'"
    using analyze_table_success [OF h] by simp
  obtain v where v: "a' = setitem ''ai_insights'' v analysis"
     "(\<exists>e. v = insight_failure e) \<or> (\<exists>req. analyze_table_quality E req = Inr v)"
    using add_ai_insights_value [of E table_name "PStr ''HR/Finance''" analysis] h(6) by auto
  show "\<exists>m analysis a' v.
         table_map table_name = Some m \<and>
         fst (analyze_dataframe cls az (db_table E m) table_name) = Inr analysis \<and>
         analysis_of (fst (analyze_table cls E az table_name)) = Some a' \<and>
         (\<forall>k. k \<noteq> ''ai_insights'' \<longrightarrow> map_of a' k = map_of analysis k) \<and>
         map_of a' ''ai_insights'' = Some v \<and>
         ((\<exists>e. v = insight_failure e) \<or> (\<exists>req. analyze_table_quality E req = Inr v))"
    using h(1,5) r v by (intro exI [of _ m] exI [of _ analysis] exI [of _ a'] exI [of _ v])
      (simp add: map_of_setitem)
next
  assume "status (fst (analyze_csv cls E az upl)) = 200"
  from analyze_csv_ok_inv [OF this] obtain f df analysis az' a' evs where
    h: "upl = Some f" "filename f \<noteq> []" "endswith (filename f) ''.csv''"
       "read_csv E f = Inr df"
       "analyze_dataframe cls az df (filename f) = (Inr analysis, az')"
       "add_ai_insights E (filename f)
             (get_default (add_detected_domain E df (filename f) analysis) ''detected_domain''
                (PStr ''Uploaded Data''))
             (add_detected_domain E df (filename f) analysis) = (a', evs)"
    by blast
  have r: "fst (analyze_csv cls E az upl) = analysis_response a'"
    using analyze_csv_success [OF h(2-6)] h(1) by simp
  define d where "d = (case detect_domain_single_word E (columns df) (filename f) of
                Inl e \<Rightarrow> PStr ''Unknown'' | Inr w \<Rightarrow> w)"
  have d: "add_detected_domain E df (filename f) analysis
        = setitem ''detected_domain'' d analysis"
    by (simp add: add_detected_domain_def d_def split: sum.splits)
  obtain v where v: "a' = setitem ''ai_insights'' v (add_detected_domain E df (filename f) analysis)"
     "(\<exists>e. v = insight_failure e) \<or> (\<exists>req. analyze_table_quality E req = Inr v)"
    using add_ai_insights_value h(6) by (metis fst_conv)
  show "\<exists>f df analysis a' v d.
         upl = Some f \<and> read_csv E f = Inr df \<and>
         fst (analyze_dataframe cls az df (filename f)) = Inr analysis \<and>
         analysis_of (fst (analyze_csv cls E az upl)) = Some a' \<and>
         (\<forall>k. k \<noteq> ''ai_insights'' \<and> k \<noteq> ''detected_domain'' \<longrightarrow>
              map_of a' k = map_of analysis k) \<and>
         map_of a' ''ai_insights'' = Some v \<and>
         ((\<exists>e. v = insight_failure e) \<or> (\<exists>req. analyze_table_quality E req = Inr v)) \<and>
         map_of a' ''detected_domain'' = Some d \<and>
         d = (case detect_domain_single_word E (columns df) (filename f) of
                Inl e \<Rightarrow> PStr ''Unknown'' | Inr w \<Rightarrow> w)"
    using h(1,4,5) r v d
    by (intro exI [of _ f] exI [of _ df] exI [of _ analysis] exI [of _ a'] exI [of _ v]
        exI [of _ d]) (simp add: map_of_setitem d_def [symmetric])
qed


theorem successful_report_fields_witness:
  "status (fst (analyze_table (fixed_analyzer sample_report) sample_env () ''employees'')) = 200 \<and>
   map_option (\<lambda>a. (map_of a ''issues'', map_of a ''ai_insights'' \<noteq> None,
                     map_of a ''detected_domain''))
     (analysis_of (fst (analyze_table (fixed_analyzer sample_report) sample_env ()
        ''employees''))) = Some (Some (PList []), True, None) \<and>
   status (fst (analyze_csv (fixed_analyzer sample_report) sample_env ()
     (Some sample_upload))) = 200 \<and>
   map_option (\<lambda>a. (map_of a ''issues'', map_of a ''ai_insights'' \<noteq> None,
                     map_of a ''detected_domain''))
     (analysis_of (fst (analyze_csv (fixed_analyzer sample_report) sample_env ()
        (Some sample_upload)))) = Some (Some (PList []), True, Some (PStr ''HR''))"
proof -
  let ?cls = "fixed_analyzer sample_report"
  have st: "status (fst (analyze_table ?cls sample_env () ''employees'')) = 200"
    by (simp add: analyze_table_def table_map_def query_all_def read_sql_def sample_env_def
        sample_table_def fixed_analyzer_def split: prod.splits)
  have sc: "status (fst (analyze_csv ?cls sample_env () (Some sample_upload))) = 200"
    by (simp add: analyze_csv_def sample_upload_def endswith_def sample_env_def
        fixed_analyzer_def Let_def split: prod.splits)
  have facts: "\<And>df n. fst (analyze_dataframe ?cls () df n) = Inr sample_report"
      "\<And>req. analyze_table_quality sample_env req = Inr sample_insights"
      "\<And>cs n. detect_domain_single_word sample_env cs n = Inr (PStr ''HR'')"
      "map_of sample_report ''issues'' = Some (PList [])"
      "map_of sample_report ''detected_domain'' = None"
    by (simp_all add: fixed_analyzer_def sample_env_def sample_report_def sample_insights_def
        insight_failure_def)
  have T: "\<exists>m analysis a' v.
         table_map ''employees'' = Some m \<and>
         fst (analyze_dataframe ?cls () (db_table sample_env m) ''employees'') = Inr analysis \<and>
         analysis_of (fst (analyze_table ?cls sample_env () ''employees'')) = Some a' \<and>
         (\<forall>k. k \<noteq> ''ai_insights'' \<longrightarrow> map_of a' k = map_of analysis k) \<and>
         map_of a' ''ai_insights'' = Some v \<and>
         ((\<exists>e. v = insight_failure e) \<or> (\<exists>req. analyze_table_quality sample_env req = Inr v))"
    by (rule mp [OF conjunct1 [OF successful_report_fields]]) (rule st)
  have C: "\<exists>f df analysis a' v d.
         Some sample_upload = Some f \<and> read_csv sample_env f = Inr df \<and>
         fst (analyze_dataframe ?cls () df (filename f)) = Inr analysis \<and>
         analysis_of (fst (analyze_csv ?cls sample_env () (Some sample_upload))) = Some a' \<and>
         (\<forall>k. k \<noteq> ''ai_insights'' \<and> k \<noteq> ''detected_domain'' \<longrightarrow>
              map_of a' k = map_of analysis k) \<and>
         map_of a' ''ai_insights'' = Some v \<and>
         ((\<exists>e. v = insight_failure e) \<or> (\<exists>req. analyze_table_quality sample_env req = Inr v)) \<and>
         map_of a' ''detected_domain'' = Some d \<and>
         d = (case detect_domain_single_word sample_env (columns df) (filename f) of
                Inl e \<Rightarrow> PStr ''Unknown'' | Inr w \<Rightarrow> w)"
    by (rule mp [OF conjunct2 [OF successful_report_fields]]) (rule sc)
  from T obtain m analysis a' v where
    t: "table_map ''employees'' = Some m"
       "fst (analyze_dataframe ?cls () (db_table sample_env m) ''employees'') = Inr analysis"
       "analysis_of (fst (analyze_table ?cls sample_env () ''employees'')) = Some a'"
       "\<forall>k. k \<noteq> ''ai_insights'' \<longrightarrow> map_of a' k = map_of analysis k"
       "map_of a' ''ai_insights'' = Some v"
    by (elim exE conjE) (rule that)
  from t(2) have ta: "analysis = sample_report" by (simp add: facts)
  have T': "map_option (\<lambda>a. (map_of a ''issues'', map_of a ''ai_insights'' \<noteq> None,
                     map_of a ''detected_domain''))
     (analysis_of (fst (analyze_table ?cls sample_env () ''employees'')))
       = Some (Some (PList []), True, None)"
    using t(3,4,5) by (simp add: ta facts)
  from C obtain f df analysis' a'' v' d where
    c: "Some sample_upload = Some f" "read_csv sample_env f = Inr df"
       "fst (analyze_dataframe ?cls () df (filename f)) = Inr analysis'"
       "analysis_of (fst (analyze_csv ?cls sample_env () (Some sample_upload))) = Some a''"
       "\<forall>k. k \<noteq> ''ai_insights'' \<and> k \<noteq> ''detected_domain'' \<longrightarrow>
              map_of a'' k = map_of analysis' k"
       "map_of a'' ''ai_insights'' = Some v'"
       "map_of a'' ''detected_domain'' = Some d"
       "d = (case detect_domain_single_word sample_env (columns df) (filename f) of
                Inl e \<Rightarrow> PStr ''Unknown'' | Inr w \<Rightarrow> w)"
    by (elim exE conjE) (rule that)
  from c(3) have ca: "analysis' = sample_report" by (simp add: facts)
  from c(8) have cd: "d = PStr ''HR''" by (simp add: facts)
  have C': "map_option (\<lambda>a. (map_of a ''issues'', map_of a ''ai_insights'' \<noteq> None,
                     map_of a ''detected_domain''))
     (analysis_of (fst (analyze_csv ?cls sample_env () (Some sample_upload))))
       = Some (Some (PList []), True, Some (PStr ''HR''))"
    using c(4,5,6,7) by (simp add: ca cd facts)
  show ?thesis using st sc T' C' by simp
qed

lemma analyze_table_insight_inv:
  assumes "p \<in> set (insight_requests (fst (snd (analyze_table cls E az table_name))))"
  shows "\<exists>m analysis az' a' evs.
           table_map table_name = Some m \<and> query_error E m = None \<and>
           rows (db_table E m) \<noteq> [] \<and> read_sql_error E m = None \<and>
           analyze_dataframe cls az (db_table E m) table_name = (Inr analysis, az') \<and>
           add_ai_insights E table_name (PStr ''HR/Finance'') analysis = (a', evs) \<and>
           p \<in> set (insight_requests evs)"
  using assms
  by (auto simp: analyze_table_def query_all_def read_sql_def insight_requests_def
      split: option.splits sum.splits if_splits prod.splits)

lemma analyze_csv_insight_inv:
  assumes "p \<in> set (insight_requests (fst (snd (analyze_csv cls E az upl))))"
  shows "\<exists>f df analysis az' a' evs.
           upl = Some f \<and> filename f \<noteq> [] \<and> endswith (filename f) ''.csv'' \<and>
           read_csv E f = Inr df \<and>
           analyze_dataframe cls az df (filename f) = (Inr analysis, az') \<and>
           add_ai_insights E (filename f)
             (get_default (add_detected_domain E df (filename f) analysis) ''detected_domain''
                (PStr ''Uploaded Data''))
             (add_detected_domain E df (filename f) analysis) = (a', evs) \<and>
           p \<in> set (insight_requests evs)"
  using assms
  by (auto simp: analyze_csv_def Let_def insight_requests_def
      split: option.splits sum.splits if_splits prod.splits)

lemma map_of_llm_request_items:
  "map_of (dict_display ([(''table_name'', n), (''domain'', d)] @ scores @ [(''issues'', iss)])) k =
     (if k = ''issues'' then Some iss
      else case map_of (rev scores) k of
             Some v \<Rightarrow> Some v
           | None \<Rightarrow> (if k = ''table_name'' then Some n
                      else if k = ''domain'' then Some d else None))"
  by (simp add: map_of_dict_display map_add_def split: option.splits)

lemma add_detected_domain_lookup:
  "k \<noteq> ''detected_domain'' \<Longrightarrow> map_of (add_detected_domain E df n a) k = map_of a k"
  by (simp add: add_detected_domain_def map_of_setitem split: sum.splits)

lemma get_detected_domain:
  "get_default (add_detected_domain E df n a) ''detected_domain'' dflt =
     (case detect_domain_single_word E (columns df) n of
        Inl e \<Rightarrow> PStr ''Unknown'' | Inr w \<Rightarrow> w)"
  by (simp add: add_detected_domain_def get_default_def map_of_setitem split: sum.splits)

text \<open>
  C6, amended. Every argument passed to \<^verbatim>\<open>analyze_table_quality\<close> is the flat dict
  \<^verbatim>\<open>{'table_name': name, 'domain': domain, **table_scores, 'issues': issues}\<close> built from
  the engine's report: name is the table name or the file name, domain is
  \<^verbatim>\<open>'HR/Finance'\<close> or the detected domain. The last conjunct reads the dict: \<^verbatim>\<open>issues\<close> is
  always the engine's issues, every entry of \<^verbatim>\<open>table_scores\<close> sits at top level, and
  \<^verbatim>\<open>table_name\<close> and \<^verbatim>\<open>domain\<close> are the name and the domain unless \<^verbatim>\<open>table_scores\<close> has
  entries of these names. A result returned by the generator is stored as
  \<^verbatim>\<open>ai_insights\<close> as it is.
\<close>

theorem insight_request_shape:
  "(p \<in> set (insight_requests (fst (snd (analyze_table cls E az table_name)))) \<longrightarrow>
      (\<exists>m analysis scores issues.
         table_map table_name = Some m \<and>
         fst (analyze_dataframe cls az (db_table E m) table_name) = Inr analysis \<and>
         map_of analysis ''table_scores'' = Some (PDict scores) \<and>
         map_of analysis ''issues'' = Some issues \<and>
         p = PDict (dict_display
               ([(''table_name'', PStr table_name), (''domain'', PStr ''HR/Finance'')] @ scores @
                [(''issues'', issues)])) \<and>
         (\<forall>res. analyze_table_quality E p = Inr res \<longrightarrow>
            map_option (\<lambda>a. map_of a ''ai_insights'')
              (analysis_of (fst (analyze_table cls E az table_name))) = Some (Some res)))) \<and>
   (p \<in> set (insight_requests (fst (snd (analyze_csv cls E az upl)))) \<longrightarrow>
      (\<exists>f df analysis scores issues.
         upl = Some f \<and> read_csv E f = Inr df \<and>
         fst (analyze_dataframe cls az df (filename f)) = Inr analysis \<and>
         map_of analysis ''table_scores'' = Some (PDict scores) \<and>
         map_of analysis ''issues'' = Some issues \<and>
         p = PDict (dict_display
               ([(''table_name'', PStr (filename f)),
                 (''domain'', case detect_domain_single_word E (columns df) (filename f) of
                                Inl e \<Rightarrow> PStr ''Unknown'' | Inr w \<Rightarrow> w)] @ scores @
                [(''issues'', issues)])) \<and>
         (\<forall>res. analyze_table_quality E p = Inr res \<longrightarrow>
            map_option (\<lambda>a. map_of a ''ai_insights'')
              (analysis_of (fst (analyze_csv cls E az upl))) = Some (Some res)))) \<and>
   (\<forall>k. map_of (dict_display ([(''table_name'', n), (''domain'', d)] @ sc @ [(''issues'', iss)])) k =
     (if k = ''issues'' then Some iss
      else case map_of (rev sc) k of
             Some v \<Rightarrow> Some v
           | None \<Rightarrow> (if k = ''table_name'' then Some n
                      else if k = ''domain'' then Some d else None)))"
proof (intro conjI impI allI)
  assume "p \<in> set (insight_requests (fst (snd (analyze_table cls E az table_name))))"
  from analyze_table_insight_inv [OF this] obtain m analysis az' a' evs where
    h: "table_map table_name = Some m" "query_error E m = None"
       "rows (db_table E m) \<noteq> []" "read_sql_error E m = None"
       "analyze_dataframe cls az (db_table E m) table_name = (Inr analysis, az')"
       "add_ai_insights E table_name (PStr ''HR/Finance'') analysis = (a', evs)"
    and p: "p \<in> set (insight_requests evs)"
    by (elim exE conjE) (rule that)
  have r: "fst (analyze_table cls E az table_name) = analysis_response a'"
    using analyze_table_success [OF h] by simp
  from p h(6) have q: "llm_request table_name (PStr ''HR/Finance'') analysis = Inr p"
    and a': "a' = setitem ''ai_insights''
         (case analyze_table_quality E p of Inl e \<Rightarrow> insight_failure e | Inr res \<Rightarrow> res) analysis"
    using add_ai_insights_requests [of p E table_name "PStr ''HR/Finance''" analysis] by simp_all
  from llm_request_Inr [OF q] obtain scores issues where
    s: "map_of analysis ''table_scores'' = Some (PDict scores)"
       "map_of analysis ''issues'' = Some issues"
       "p = PDict (dict_display
               ([(''table_name'', PStr table_name), (''domain'', PStr ''HR/Finance'')] @ scores @
                [(''issues'', issues)]))"
    by (elim exE conjE) (rule that)
  have res: "\<forall>res. analyze_table_quality E p = Inr res \<longrightarrow>
            map_option (\<lambda>a. map_of a ''ai_insights'')
              (analysis_of (fst (analyze_table cls E az table_name))) = Some (Some res)"
    by (simp add: r a' map_of_setitem)
  show "\<exists>m analysis scores issues.
         table_map table_name = Some m \<and>
         fst (analyze_dataframe cls az (db_table E m) table_name) = Inr analysis \<and>
         map_of analysis ''table_scores'' = Some (PDict scores) \<and>
         map_of analysis ''issues'' = Some issues \<and>
         p = PDict (dict_display
               ([(''table_name'', PStr table_name), (''domain'', PStr ''HR/Finance'')] @ scores @
                [(''issues'', issues)])) \<and>
         (\<forall>res. analyze_table_quality E p = Inr res \<longrightarrow>
            map_option (\<lambda>a. map_of a ''ai_insights'')
              (analysis_of (fst (analyze_table cls E az table_name))) = Some (Some res))"
    apply (rule exI [of _ m], rule exI [of _ analysis], rule exI [of _ scores],
        rule exI [of _ issues])
    apply (intro conjI)
         apply (rule h(1))
        apply (simp add: h(5))
       apply (rule s(1))
      apply (rule s(2))
     apply (rule s(3))
    apply (rule res)
    done
next
  assume "p \<in> set (insight_requests (fst (snd (analyze_csv cls E az upl))))"
  from analyze_csv_insight_inv [OF this] obtain f df analysis az' a' evs where
    h: "upl = Some f" "filename f \<noteq> []" "endswith (filename f) ''.csv''"
       "read_csv E f = Inr df"
       "analyze_dataframe cls az df (filename f) = (Inr analysis, az')"
       "add_ai_insights E (filename f)
             (get_default (add_detected_domain E df (filename f) analysis) ''detected_domain''
                (PStr ''Uploaded Data''))
             (add_detected_domain E df (filename f) analysis) = (a', evs)"
    and p: "p \<in> set (insight_requests evs)"
    by (elim exE conjE) (rule that)
  let ?det = "add_detected_domain E df (filename f) analysis"
  let ?dom = "case detect_domain_single_word E (columns df) (filename f) of
                Inl e \<Rightarrow> PStr ''Unknown'' | Inr w \<Rightarrow> w"
  have r: "fst (analyze_csv cls E az upl) = analysis_response a'"
    using analyze_csv_success [OF h(2-6)] h(1) by simp
  have h6: "add_ai_insights E (filename f) ?dom ?det = (a', evs)"
    using h(6) by (simp only: get_detected_domain)
  from p h6 have q: "llm_request (filename f) ?dom ?det = Inr p"
    and a': "a' = setitem ''ai_insights''
         (case analyze_table_quality E p of Inl e \<Rightarrow> insight_failure e | Inr res \<Rightarrow> res) ?det"
    using add_ai_insights_requests [of p E "filename f" ?dom ?det] by simp_all
  from llm_request_Inr [OF q] obtain scores issues where
    s: "map_of ?det ''table_scores'' = Some (PDict scores)"
       "map_of ?det ''issues'' = Some issues"
       "p = PDict (dict_display
               ([(''table_name'', PStr (filename f)), (''domain'', ?dom)] @ scores @
                [(''issues'', issues)]))"
    by (elim exE conjE) (rule that)
  have s': "map_of analysis ''table_scores'' = Some (PDict scores)"
       "map_of analysis ''issues'' = Some issues"
    using s(1,2) by (simp_all add: add_detected_domain_lookup)
  have res: "\<forall>res. analyze_table_quality E p = Inr res \<longrightarrow>
            map_option (\<lambda>a. map_of a ''ai_insights'')
              (analysis_of (fst (analyze_csv cls E az upl))) = Some (Some res)"
    by (simp add: r a' map_of_setitem)
  show "\<exists>f df analysis scores issues.
         upl = Some f \<and> read_csv E f = Inr df \<and>
         fst (analyze_dataframe cls az df (filename f)) = Inr analysis \<and>
         map_of analysis ''table_scores'' = Some (PDict scores) \<and>
         map_of analysis ''issues'' = Some issues \<and>
         p = PDict (dict_display
               ([(''table_name'', PStr (filename f)),
                 (''domain'', case detect_domain_single_word E (columns df) (filename f) of
                                Inl e \<Rightarrow> PStr ''Unknown'' | Inr w \<Rightarrow> w)] @ scores @
                [(''issues'', issues)])) \<and>
         (\<forall>res. analyze_table_quality E p = Inr res \<longrightarrow>
            map_option (\<lambda>a. map_of a ''ai_insights'')
              (analysis_of (fst (analyze_csv cls E az upl))) = Some (Some res))"
    apply (rule exI [of _ f], rule exI [of _ df], rule exI [of _ analysis],
        rule exI [of _ scores], rule exI [of _ issues])
    apply (intro conjI)
          apply (rule h(1))
         apply (rule h(4))
        apply (simp add: h(5))
       apply (rule s'(1))
      apply (rule s'(2))
     apply (rule s(3))
    apply (rule res)
    done
next
  fix k
  show "map_of (dict_display ([(''table_name'', n), (''domain'', d)] @ sc @ [(''issues'', iss)])) k =
     (if k = ''issues'' then Some iss
      else case map_of (rev sc) k of
             Some v \<Rightarrow> Some v
           | None \<Rightarrow> (if k = ''table_name'' then Some n
                      else if k = ''domain'' then Some d else None))"
    by (rule map_of_llm_request_items)
qed

text \<open>
  C6, as stated, fails: the argument has no \<^verbatim>\<open>scores\<close> entry; the table scores are
  spread over the top level.
\<close>

theorem insight_request_has_no_scores_key:
  "insight_requests (fst (snd (analyze_table (fixed_analyzer sample_report) sample_env ()
      ''employees''))) =
     [PDict [(''table_name'', PStr ''employees''), (''domain'', PStr ''HR/Finance''),
             (''completeness_score'', PNum 100), (''correctness_score'', PNum 100),
             (''uniqueness_score'', PNum 100), (''consistency_score'', PNum 100),
             (''overall_score'', PNum 100), (''quality_grade'', PStr ''A''),
             (''issues'', PList [])]] \<and>
   map_of [(''table_name'', PStr ''employees''), (''domain'', PStr ''HR/Finance''),
           (''completeness_score'', PNum 100), (''correctness_score'', PNum 100),
           (''uniqueness_score'', PNum 100), (''consistency_score'', PNum 100),
           (''overall_score'', PNum 100), (''quality_grade'', PStr ''A''),
           (''issues'', PList [])] ''scores'' = None"
  by (simp add: analyze_table_def table_map_def query_all_def read_sql_def sample_env_def
      sample_table_def fixed_analyzer_def add_ai_insights_def llm_request_def getitem_def
      sample_report_def dict_display_def setitem_def insight_requests_def)

theorem insight_request_shape_witness:
  "PDict [(''table_name'', PStr ''employees''), (''domain'', PStr ''HR/Finance''),
          (''completeness_score'', PNum 100), (''correctness_score'', PNum 100),
          (''uniqueness_score'', PNum 100), (''consistency_score'', PNum 100),
          (''overall_score'', PNum 100), (''quality_grade'', PStr ''A''),
          (''issues'', PList [])]
     \<in> set (insight_requests (fst (snd (analyze_table (fixed_analyzer sample_report)
                sample_env () ''employees'')))) \<and>
   map_option (\<lambda>a. map_of a ''ai_insights'')
     (analysis_of (fst (analyze_table (fixed_analyzer sample_report) sample_env ()
        ''employees''))) = Some (Some sample_insights) \<and>
   PDict [(''table_name'', PStr ''staff.csv''), (''domain'', PStr ''HR''),
          (''completeness_score'', PNum 100), (''correctness_score'', PNum 100),
          (''uniqueness_score'', PNum 100), (''consistency_score'', PNum 100),
          (''overall_score'', PNum 100), (''quality_grade'', PStr ''A''),
          (''issues'', PList [])]
     \<in> set (insight_requests (fst (snd (analyze_csv (fixed_analyzer sample_report)
                sample_env () (Some sample_upload))))) \<and>
   map_option (\<lambda>a. map_of a ''ai_insights'')
     (analysis_of (fst (analyze_csv (fixed_analyzer sample_report) sample_env ()
        (Some sample_upload)))) = Some (Some sample_insights)"
proof -
  let ?cls = "fixed_analyzer sample_report"
  let ?p = "PDict [(''table_name'', PStr ''employees''), (''domain'', PStr ''HR/Finance''),
          (''completeness_score'', PNum 100), (''correctness_score'', PNum 100),
          (''uniqueness_score'', PNum 100), (''consistency_score'', PNum 100),
          (''overall_score'', PNum 100), (''quality_grade'', PStr ''A''),
          (''issues'', PList [])]"
  let ?q = "PDict [(''table_name'', PStr ''staff.csv''), (''domain'', PStr ''HR''),
          (''completeness_score'', PNum 100), (''correctness_score'', PNum 100),
          (''uniqueness_score'', PNum 100), (''consistency_score'', PNum 100),
          (''overall_score'', PNum 100), (''quality_grade'', PStr ''A''),
          (''issues'', PList [])]"
  have llm: "\<And>req. analyze_table_quality sample_env req = Inr sample_insights"
    by (simp add: sample_env_def)
  have m1: "?p \<in> set (insight_requests (fst (snd (analyze_table ?cls sample_env ()
      ''employees''))))"
    by (simp add: analyze_table_def table_map_def query_all_def read_sql_def sample_env_def
      sample_table_def fixed_analyzer_def add_ai_insights_def llm_request_def getitem_def
      sample_report_def dict_display_def setitem_def insight_requests_def)
  have m2: "?q \<in> set (insight_requests (fst (snd (analyze_csv ?cls sample_env ()
      (Some sample_upload)))))"
    by (simp add: analyze_csv_def sample_upload_def endswith_def sample_env_def
      fixed_analyzer_def add_detected_domain_def get_default_def Let_def
      add_ai_insights_def llm_request_def getitem_def
      sample_report_def dict_display_def setitem_def insight_requests_def)
  have T: "\<forall>res. analyze_table_quality sample_env ?p = Inr res \<longrightarrow>
            map_option (\<lambda>a. map_of a ''ai_insights'')
              (analysis_of (fst (analyze_table ?cls sample_env () ''employees'')))
              = Some (Some res)"
    using mp [OF conjunct1 [OF insight_request_shape [where p = ?p and cls = ?cls and E = sample_env
        and az = "()" and table_name = "''employees''"]] m1]
    by (elim exE conjE)
  have C: "\<forall>res. analyze_table_quality sample_env ?q = Inr res \<longrightarrow>
            map_option (\<lambda>a. map_of a ''ai_insights'')
              (analysis_of (fst (analyze_csv ?cls sample_env () (Some sample_upload))))
              = Some (Some res)"
    using mp [OF conjunct1 [OF conjunct2 [OF insight_request_shape [where p = ?q and cls = ?cls
        and E = sample_env and az = "()" and upl = "Some sample_upload"]]] m2]
    by (elim exE conjE)
  show ?thesis
    using m1 m2 T [rule_format, OF llm] C [rule_format, OF llm] by (intro conjI)
qed


section \<open>Properties of the review route and of the shared analyzer\<close>


lemma persisted_session_set [simp]: "persisted (session_set s i r) = persisted s"
  by (simp add: session_set_def)

lemma persisted_rollback [simp]: "persisted (session_rollback s) = persisted s"
  by (simp add: session_rollback_def)

lemma persisted_close [simp]: "persisted (session_close s) = persisted s"
  by (simp add: session_close_def)

lemma persisted_new [simp]: "persisted (new_session db) = db"
  by (simp add: new_session_def)

lemma review_failed_parts [simp]:
  "fst (review_failed e evs s) = error_response 500 (str_exn e)"
  "fst (snd (review_failed e evs s)) = evs @ [EvRollback, EvClose]"
  "snd (snd (review_failed e evs s)) = persisted s"
  by (simp_all add: review_failed_def)



lemma review_commit_event:
  "EvCommit \<in> set (fst (snd (review_insight R db i))) \<Longrightarrow>
     status (fst (review_insight R db i)) = 200 \<or>
     (commit_error R \<noteq> None \<and> status (fst (review_insight R db i)) = 500)"
  by (auto simp: review_insight_def Let_def split: sum.splits option.splits)






lemma handle_keeps_stateless:
  assumes "\<forall>az df n. snd (analyze_dataframe cls az df n) = az"
  shows "snd (snd (handle cls E az rq)) = az"
proof (cases rq)
  have k: "\<And>df n r az'. analyze_dataframe cls az df n = (r, az') \<Longrightarrow> az' = az"
  proof -
    fix df n r az'
    assume "analyze_dataframe cls az df n = (r, az')"
    then have "snd (analyze_dataframe cls az df n) = az'" by simp
    with assms show "az' = az" by simp
  qed
  case (TableRequest table_name)
  have "snd (snd (analyze_table cls E az table_name)) = az"
    by (auto simp: analyze_table_def dest: k split: option.splits sum.splits prod.splits)
  with TableRequest show ?thesis by simp
next
  case (CsvRequest upl)
  have k: "\<And>df n r az'. analyze_dataframe cls az df n = (r, az') \<Longrightarrow> az' = az"
  proof -
    fix df n r az'
    assume "analyze_dataframe cls az df n = (r, az')"
    then have "snd (analyze_dataframe cls az df n) = az'" by simp
    with assms show "az' = az" by simp
  qed
  have "snd (snd (analyze_csv cls E az upl)) = az"
    by (auto simp: analyze_csv_def Let_def dest: k split: option.splits sum.splits prod.splits)
  with CsvRequest show ?thesis by simp
qed

lemma handle_instance:
  "snd (snd (handle cls E az rq)) = az \<or>
   (\<exists>df n. snd (snd (handle cls E az rq)) = snd (analyze_dataframe cls az df n))"
proof (cases rq)
  case (TableRequest table_name)
  have "snd (snd (analyze_table cls E az table_name)) = az \<or>
   (\<exists>df n. snd (snd (analyze_table cls E az table_name)) = snd (analyze_dataframe cls az df n))"
    by (auto simp: analyze_table_def split: option.splits sum.splits prod.splits)
       (metis snd_conv)+
  with TableRequest show ?thesis by simp
next
  case (CsvRequest upl)
  have "snd (snd (analyze_csv cls E az upl)) = az \<or>
   (\<exists>df n. snd (snd (analyze_csv cls E az upl)) = snd (analyze_dataframe cls az df n))"
    by (auto simp: analyze_csv_def Let_def split: option.splits sum.splits prod.splits)
       (metis snd_conv)+
  with CsvRequest show ?thesis by simp
qed

lemma serve_stateless:
  assumes "\<forall>az df n. snd (analyze_dataframe cls az df n) = az"
  shows "serve cls az reqs = map (\<lambda>(E, rq). fst (handle cls E az rq)) reqs"
proof (induction reqs)
  case Nil
  show ?case by simp
next
  case (Cons x reqs)
  obtain E rq where x: "x = (E, rq)" by (cases x)
  obtain r tr az' where h: "handle cls E az rq = (r, tr, az')" by (cases "handle cls E az rq")
  have "az' = az" using handle_keeps_stateless [OF assms, of E az rq] h by simp
  with Cons.IH x h show ?case by simp
qed

text \<open>
  C4, amended. The calling layer holds one analyzer instance, created when the module
  is loaded and shared by all requests; a handler never constructs one and keeps no
  state of its own: the instance it leaves is the one it found or the one
  \<^verbatim>\<open>analyze_dataframe\<close> left. When \<^verbatim>\<open>analyze_dataframe\<close> leaves the instance unchanged,
  each response in a sequence of requests is the response the request gets alone on the
  fresh instance.
\<close>

theorem stateless_analyzer_requests_independent:
  "(snd (snd (handle cls E az rq)) = az \<or>
    (\<exists>df n. snd (snd (handle cls E az rq)) = snd (analyze_dataframe cls az df n))) \<and>
   ((\<forall>az df n. snd (analyze_dataframe cls az df n) = az) \<longrightarrow>
      run_app cls reqs = map (\<lambda>(E, rq). fst (handle cls E (construct cls) rq)) reqs)"
  using handle_instance [of cls E az rq] serve_stateless [of cls "construct cls" reqs]
  by (simp add: run_app_def)

text \<open>
  C4, as stated, fails in the calling layer: the routes use the one instance created at
  line 40. With an analyzer that keeps what it has seen in the instance, the second of
  two equal requests answers differently from the first.
\<close>

theorem shared_analyzer_instance_interferes:
  "map (\<lambda>r. map_option (\<lambda>a. map_of a ''issues'') (analysis_of r))
     (run_app accumulating_analyzer
        [(sample_env, TableRequest ''employees''), (sample_env, TableRequest ''employees'')]) =
     [Some (Some (PList [PStr ''employees''])),
      Some (Some (PList [PStr ''employees'', PStr ''employees'']))]"
  by (simp add: run_app_def accumulating_analyzer_def analyze_table_def table_map_def
      query_all_def read_sql_def sample_env_def sample_table_def add_ai_insights_def
      llm_request_def getitem_def sample_report_def dict_display_def setitem_def
      analysis_of_def analysis_response_def)

theorem stateless_analyzer_requests_independent_witness:
  "(\<forall>az df n. snd (analyze_dataframe (fixed_analyzer sample_report) az df n) = az) \<and>
   run_app (fixed_analyzer sample_report)
     [(sample_env, TableRequest ''employees''), (failing_llm_env, TableRequest ''employees'')] =
     [fst (analyze_table (fixed_analyzer sample_report) sample_env () ''employees''),
      fst (analyze_table (fixed_analyzer sample_report) failing_llm_env () ''employees'')]"
proof -
  have p: "\<forall>az df n. snd (analyze_dataframe (fixed_analyzer sample_report) az df n) = az"
    by (simp add: fixed_analyzer_def)
  show ?thesis
    using mp [OF conjunct2 [OF stateless_analyzer_requests_independent [where cls = "fixed_analyzer sample_report"
       and reqs = "[(sample_env, TableRequest ''employees''),
                    (failing_llm_env, TableRequest ''employees'')]"]] p] p
    by simp
qed


section \<open>Properties of the engine as specified\<close>

lemma length_present_values: "length (present_values vs) \<le> length vs"
  by (simp add: present_values_def map_filter_def)

lemma count_where_le: "count_where P xs \<le> length xs"
  by (simp add: count_where_def)

lemma percent_bounds: "k \<le> n \<Longrightarrow> 0 < n \<Longrightarrow> in_bounds (percent k n)"
  by (simp add: in_bounds_def percent_def divide_le_eq)

lemma in_bounds_100 [simp]: "in_bounds 100"
  by (simp add: in_bounds_def)

lemma completeness_bounds: "in_bounds (completeness vs)"
  by (simp add: completeness_def percent_bounds length_present_values)

lemma correctness_bounds: "in_bounds (correctness R cfg name ty vals)"
  by (simp add: correctness_def percent_bounds count_where_le)

lemma uniqueness_bounds: "in_bounds (uniqueness vals)"
  by (simp add: uniqueness_def percent_bounds)

lemma foldr_max_le:
  "(\<forall>x \<in> set xs. f x \<le> b) \<Longrightarrow> foldr (\<lambda>x m. max (f x) m) xs 0 \<le> (b::nat)"
  by (induction xs) auto

lemma most_common_count_le: "most_common_count xs \<le> length xs"
  unfolding most_common_count_def
  by (rule foldr_max_le) (simp add: count_where_le)

lemma consistent_count_le: "consistent_count R ty vals \<le> length vals"
  using most_common_count_le [of "map (structural_pattern R) vals"]
  by (simp add: consistent_count_def count_where_le)

lemma consistency_bounds: "in_bounds (consistency R ty vals)"
  by (simp add: consistency_def percent_bounds consistent_count_le)

lemma convex4:
  fixes w1 w2 w3 w4 :: rat
  assumes "0 \<le> w1" "0 \<le> w2" "0 \<le> w3" "0 \<le> w4" "w1 + w2 + w3 + w4 = 1"
    and "in_bounds c" "in_bounds r" "in_bounds u" "in_bounds k"
  shows "in_bounds (w1 * c + w2 * r + w3 * u + w4 * k)"
proof -
  have lo: "0 \<le> w1 * c" "0 \<le> w2 * r" "0 \<le> w3 * u" "0 \<le> w4 * k"
    using assms by (simp_all add: in_bounds_def)
  have hi: "w1 * c \<le> w1 * 100" "w2 * r \<le> w2 * 100" "w3 * u \<le> w3 * 100" "w4 * k \<le> w4 * 100"
    using assms by (simp_all add: in_bounds_def mult_left_mono)
  have "w1 * 100 + w2 * 100 + w3 * 100 + w4 * 100 = (w1 + w2 + w3 + w4) * 100"
    by (simp add: algebra_simps)
  also have "\<dots> = 100" using assms(5) by simp
  finally have "w1 * c + w2 * r + w3 * u + w4 * k \<le> 100" using hi by linarith
  moreover have "0 \<le> w1 * c + w2 * r + w3 * u + w4 * k" using lo by linarith
  ultimately show ?thesis by (simp add: in_bounds_def)
qed

lemma normalized_weights_ok:
  assumes "weights_ok cfg" and "normalized_weights cfg = (w1, w2, w3, w4)"
  shows "0 \<le> w1 \<and> 0 \<le> w2 \<and> 0 \<le> w3 \<and> 0 \<le> w4 \<and> w1 + w2 + w3 + w4 = 1"
proof (cases "weights cfg")
  case None
  with assms show ?thesis by (auto simp: normalized_weights_def)
next
  case (Some w)
  obtain a b c d where w: "w = (a, b, c, d)" by (cases w) auto
  from assms(1) Some w have p: "0 \<le> a" "0 \<le> b" "0 \<le> c" "0 \<le> d" "0 < a + b + c + d"
    by (simp_all add: weights_ok_def)
  from assms(2) Some w have e: "w1 = a / (a + b + c + d)" "w2 = b / (a + b + c + d)"
      "w3 = c / (a + b + c + d)" "w4 = d / (a + b + c + d)"
    by (simp_all add: normalized_weights_def)
  have "w1 + w2 + w3 + w4 = (a + b + c + d) / (a + b + c + d)"
    unfolding e by (simp only: add_divide_distrib)
  also have "\<dots> = 1" using p(5) by simp
  finally show ?thesis using p by (simp add: e)
qed

lemma field_overall_bounds:
  assumes "weights_ok cfg" "in_bounds c" "in_bounds r" "in_bounds u" "in_bounds k"
  shows "in_bounds (field_overall cfg c r u k)"
proof -
  obtain w1 w2 w3 w4 where w: "normalized_weights cfg = (w1, w2, w3, w4)"
    by (cases "normalized_weights cfg") auto
  from normalized_weights_ok [OF assms(1) w] assms(2-5)
  have "in_bounds (w1 * c + w2 * r + w3 * u + w4 * k)" by (intro convex4) simp_all
  with w show ?thesis by (simp add: field_overall_def)
qed

lemma field_overall_const:
  assumes "weights_ok cfg"
  shows "field_overall cfg x x x x = x"
proof -
  obtain w1 w2 w3 w4 where w: "normalized_weights cfg = (w1, w2, w3, w4)"
    by (cases "normalized_weights cfg") auto
  from normalized_weights_ok [OF assms w] have "w1 + w2 + w3 + w4 = 1" by simp
  then have "(w1 + w2 + w3 + w4) * x = x" by simp
  then have "w1 * x + w2 * x + w3 * x + w4 * x = x" by (simp add: algebra_simps)
  with w show ?thesis by (simp add: field_overall_def)
qed

lemma sum_list_bounds:
  fixes xs :: "rat list"
  assumes "\<forall>x \<in> set xs. in_bounds x"
  shows "0 \<le> sum_list xs \<and> sum_list xs \<le> 100 * of_nat (length xs)"
  using assms by (induction xs) (auto simp: in_bounds_def algebra_simps)

lemma mean_bounds:
  assumes "xs \<noteq> []" and "\<forall>x \<in> set xs. in_bounds x"
  shows "in_bounds (mean xs)"
proof -
  have n: "0 < (of_nat (length xs) :: rat)" using assms(1) by simp
  from sum_list_bounds [OF assms(2)] n show ?thesis
    by (simp add: mean_def in_bounds_def divide_le_eq)
qed

lemma mean_const:
  assumes "xs \<noteq> []" and "\<forall>x \<in> set xs. x = c"
  shows "mean xs = c"
proof -
  have "sum_list xs = of_nat (length xs) * c"
    using assms(2) by (induction xs) (auto simp: algebra_simps)
  moreover have "(of_nat (length xs) :: rat) \<noteq> 0" using assms(1) by simp
  ultimately show ?thesis by (simp add: mean_def)
qed

lemma analyze_field_bounds:
  assumes "weights_ok cfg"
  shows "scores_in_bounds (fst (analyze_field R cfg name vs))"
  using assms
  by (simp add: analyze_field_def Let_def scores_in_bounds_def completeness_bounds
      correctness_bounds uniqueness_bounds consistency_bounds field_overall_bounds)

lemma analyze_field_grade:
  "quality_grade (fst (analyze_field R cfg name vs)) =
     grade_of (overall_score (fst (analyze_field R cfg name vs)))"
  by (simp add: analyze_field_def Let_def)

lemma analyze_field_name: "field_name (fst (analyze_field R cfg name vs)) = name"
  by (simp add: analyze_field_def Let_def)

lemma aggregate_bounds:
  assumes "fas \<noteq> []" and "\<forall>fa \<in> set fas. scores_in_bounds fa"
  shows "scores_in_bounds (aggregate fas)"
  using assms
  by (simp add: aggregate_def scores_in_bounds_def mean_bounds)

lemma grade_of_thresholds:
  "grade_of s =
     (if 90 \<le> s then GradeA else if 75 \<le> s then GradeB else if 60 \<le> s then GradeC
      else if 40 \<le> s then GradeD else GradeF)"
  by (simp add: grade_of_def grade_bands_def)

lemma analyze_with_Inr:
  assumes "analyze_with R cfg ds label = Inr rep"
  shows "columns ds \<noteq> [] \<and> input_contract ds \<and>
         field_analyses rep = map (\<lambda>c. fst (analyze_field R cfg c (column_values ds c))) (columns ds) \<and>
         table_scores rep = aggregate (field_analyses rep) \<and>
         issues rep = order_issues (concat (map (\<lambda>c. snd (analyze_field R cfg c (column_values ds c))) (columns ds)))"
  using assms
  by (auto simp: analyze_with_def Let_def comp_def split: if_splits)

text \<open>The scenarios of section 8 of the specification, on the model.\<close>

lemma scenario_email:
  "completeness (replicate 90 (Some ''u@x.org'') @ replicate 10 (Some [])) = 90 \<and>
   correctness simple_rules default_config ''email'' Email
     (present_values (replicate 90 (Some ''u@x.org'') @ replicate 10 (Some []))) = 100 \<and>
   completeness_issues ''email'' (replicate 90 (Some ''u@x.org'') @ replicate 10 (Some [])) =
     [make_issue MissingValues Medium ''missing values'' ''email'' 10]"
  by code_simp

lemma scenario_duplicate_ids:
  "uniqueness (replicate 100 ''K7'') = 1 \<and>
   uniqueness_issues ''id'' Identifier (replicate 100 ''K7'') =
     [make_issue DuplicateKey Critical ''duplicate key'' ''id'' 99]"
  by code_simp

lemma scenario_all_null:
  "fst (analyze_field simple_rules default_config ''note'' [None, Some '' '', Some []]) =
     \<lparr>completeness_score = 0, correctness_score = 100, uniqueness_score = 100,
       consistency_score = 100, overall_score = 75, quality_grade = GradeB,
       field_name = ''note'', data_type = Unknown\<rparr>"
  by code_simp

lemma analyze_with_total:
  "input_contract ds \<Longrightarrow> \<exists>rep. analyze_with R cfg ds label = Inr rep"
  by (simp add: analyze_with_def Let_def input_contract_def)

text \<open>
  C7 (on the engine as modelled from the specification). For every dataset the engine
  accepts, the four dimension scores and the overall score of the table and of every
  field lie in [0, 100], the weights being the default ones or override weights that can
  be renormalised; the grade of the table and of every field is \<open>grade_of\<close> of its
  overall score, and \<open>grade_of\<close> has the thresholds 90, 75, 60 and 40.
\<close>

theorem scores_bounded_and_graded:
  "(weights_ok cfg \<and> analyze_with R cfg ds label = Inr rep \<longrightarrow>
      scores_in_bounds (table_scores rep) \<and>
      list_all scores_in_bounds (field_analyses rep)) \<and>
   (analyze_with R cfg ds label = Inr rep \<longrightarrow>
      quality_grade (table_scores rep) = grade_of (overall_score (table_scores rep)) \<and>
      list_all (\<lambda>fa. quality_grade fa = grade_of (overall_score fa)) (field_analyses rep)) \<and>
   grade_of s =
     (if 90 \<le> s then GradeA else if 75 \<le> s then GradeB else if 60 \<le> s then GradeC
      else if 40 \<le> s then GradeD else GradeF)"
proof (intro conjI impI)
  assume h: "weights_ok cfg \<and> analyze_with R cfg ds label = Inr rep"
  note r = analyze_with_Inr [OF h [THEN conjunct2]]
  from r have fas: "field_analyses rep =
      map (\<lambda>c. fst (analyze_field R cfg c (column_values ds c))) (columns ds)" by simp
  show fb: "list_all scores_in_bounds (field_analyses rep)"
    using h by (simp add: fas list_all_iff analyze_field_bounds)
  from r have ne: "field_analyses rep \<noteq> []" by (simp add: fas)
  from r have "table_scores rep = aggregate (field_analyses rep)" by simp
  with aggregate_bounds [OF ne] fb show "scores_in_bounds (table_scores rep)"
    by (simp add: list_all_iff)
next
  assume h: "analyze_with R cfg ds label = Inr rep"
  note r = analyze_with_Inr [OF h]
  from r have "table_scores rep = aggregate (field_analyses rep)" by simp
  then show "quality_grade (table_scores rep) = grade_of (overall_score (table_scores rep))"
    by (simp add: aggregate_def)
  from r show "list_all (\<lambda>fa. quality_grade fa = grade_of (overall_score fa)) (field_analyses rep)"
    by (simp add: list_all_iff analyze_field_grade)
next
  show "grade_of s =
     (if 90 \<le> s then GradeA else if 75 \<le> s then GradeB else if 60 \<le> s then GradeC
      else if 40 \<le> s then GradeD else GradeF)"
    by (rule grade_of_thresholds)
qed

theorem scores_bounded_and_graded_witness:
  "weights_ok default_config \<and>
   (case analyze_with simple_rules default_config staff ''staff'' of
      Inl e \<Rightarrow> False
    | Inr rep \<Rightarrow>
        scores_in_bounds (table_scores rep) \<and> list_all scores_in_bounds (field_analyses rep) \<and>
        quality_grade (table_scores rep) = grade_of (overall_score (table_scores rep)) \<and>
        map field_name (field_analyses rep) = [''id'', ''email'']) \<and>
   grade_of (325 / 4) = GradeB"
proof -
  have w: "weights_ok default_config" by (simp add: weights_ok_def default_config_def)
  have "input_contract staff" by code_simp
  from analyze_with_total [OF this, of simple_rules default_config "''staff''"]
  obtain rep where r: "analyze_with simple_rules default_config staff ''staff'' = Inr rep"
    by (elim exE) (rule that)
  have n: "map field_name (field_analyses rep) = [''id'', ''email'']"
    using analyze_with_Inr [OF r] by (simp add: comp_def analyze_field_name staff_def)
  note t = scores_bounded_and_graded [where cfg = default_config and R = simple_rules and ds = staff
      and label = "''staff''" and rep = rep and s = "325 / 4"]
  have b: "scores_in_bounds (table_scores rep) \<and> list_all scores_in_bounds (field_analyses rep)"
    using mp [OF conjunct1 [OF t]] w r by simp
  have g: "quality_grade (table_scores rep) = grade_of (overall_score (table_scores rep))"
    using mp [OF conjunct1 [OF conjunct2 [OF t]] r] by simp
  have gb: "grade_of (325 / 4) = GradeB"
    using conjunct2 [OF conjunct2 [OF t]] by simp
  show ?thesis using w r b g n gb by simp
qed

lemma zero_rows_field:
  assumes "weights_ok cfg"
  shows "analyze_field R cfg name [] =
     (\<lparr>completeness_score = 100, correctness_score = 100, uniqueness_score = 100,
       consistency_score = 100, overall_score = 100, quality_grade = GradeA,
       field_name = name, data_type = Unknown\<rparr>, [])"
  by (simp add: analyze_field_def Let_def present_values_def map_filter_def infer_type_def
      completeness_def correctness_def uniqueness_def consistency_def
      field_overall_const [OF assms] grade_of_thresholds completeness_issues_def
      correctness_issues_def uniqueness_issues_def consistency_issues_def count_where_def
      consistent_count_def most_common_count_def)

lemma order_issues_Nil [simp]: "order_issues [] = []"
  by (simp add: order_issues_def)

lemma concat_map_Nil [simp]: "concat (map (\<lambda>x. []) xs) = []"
  by (induction xs) simp_all

lemma zero_rows_report:
  assumes "columns ds \<noteq> []" and "rows ds = []" and "weights_ok cfg"
  shows "analyze_with R cfg ds label =
     Inr \<lparr>table_scores =
            \<lparr>completeness_score = 100, correctness_score = 100, uniqueness_score = 100,
             consistency_score = 100, overall_score = 100, quality_grade = GradeA\<rparr>,
          field_analyses =
            map (\<lambda>c. \<lparr>completeness_score = 100, correctness_score = 100,
                       uniqueness_score = 100, consistency_score = 100, overall_score = 100,
                       quality_grade = GradeA, field_name = c, data_type = Unknown\<rparr>)
                (columns ds),
          issues = []\<rparr>"
proof -
  have cv: "\<And>c. column_values ds c = []" using assms(2) by (simp add: column_values_def)
  have ic: "input_contract ds" using assms(1,2) by (simp add: input_contract_def)
  have m: "\<And>f. mean (map (\<lambda>c. (100::rat)) (columns ds)) = 100"
    using assms(1) by (intro mean_const) auto
  show ?thesis
    using assms(1) ic m
    by (simp add: analyze_with_def Let_def cv zero_rows_field [OF assms(3)] comp_def
        aggregate_def grade_of_thresholds)
qed

lemma spec_analyzer_Inr:
  "analyze_with R cfg ds label = Inr rep \<Longrightarrow>
     analyze_dataframe (spec_analyzer R) cfg ds label = (Inr (report_to_py rep), cfg)"
  by (simp add: spec_analyzer_def)


text \<open>
  C2, amended (the engine as modelled from the specification). For a dataset with at
  least one column and zero rows the engine returns a report with table overall score
  100, every field at 100 and no issues; the CSV route hands such a dataset to the
  engine and answers 200 with that report. The database-table route answers a table
  without rows with 404 and does not call the engine.
\<close>

theorem zero_rows_engine_and_routes:
  "(columns ds \<noteq> [] \<and> rows ds = [] \<and> weights_ok cfg \<longrightarrow>
      (\<exists>rep. analyze_with R cfg ds label = Inr rep \<and>
         overall_score (table_scores rep) = 100 \<and> issues rep = [] \<and>
         list_all (\<lambda>fa. overall_score fa = 100) (field_analyses rep))) \<and>
   (filename f \<noteq> [] \<and> endswith (filename f) ''.csv'' \<and> read_csv E f = Inr ds \<and>
    columns ds \<noteq> [] \<and> rows ds = [] \<and> weights_ok cfg \<longrightarrow>
      (case analyze_csv (spec_analyzer R) E cfg (Some f) of (r, tr, az') \<Rightarrow>
         status r = 200 \<and> success_flag r = Some (PBool True) \<and>
         (\<exists>a sc. analysis_of r = Some a \<and> map_of a ''issues'' = Some (PList []) \<and>
            map_of a ''table_scores'' = Some (PDict sc) \<and>
            map_of sc ''overall_score'' = Some (PNum 100)))) \<and>
   (table_map table_name = Some m \<and> query_error E m = None \<and> rows (db_table E m) = [] \<longrightarrow>
      (case analyze_table cls E az table_name of (r, tr, az') \<Rightarrow>
         status r = 404 \<and> success_flag r = Some (PBool False) \<and> \<not> analyzer_called tr))"
proof (intro conjI impI)
  assume h: "columns ds \<noteq> [] \<and> rows ds = [] \<and> weights_ok cfg"
  then have z: "analyze_with R cfg ds label =
     Inr \<lparr>table_scores =
            \<lparr>completeness_score = 100, correctness_score = 100, uniqueness_score = 100,
             consistency_score = 100, overall_score = 100, quality_grade = GradeA\<rparr>,
          field_analyses =
            map (\<lambda>c. \<lparr>completeness_score = 100, correctness_score = 100,
                       uniqueness_score = 100, consistency_score = 100, overall_score = 100,
                       quality_grade = GradeA, field_name = c, data_type = Unknown\<rparr>)
                (columns ds),
          issues = []\<rparr>"
    by (intro zero_rows_report) simp_all
  show "\<exists>rep. analyze_with R cfg ds label = Inr rep \<and>
         overall_score (table_scores rep) = 100 \<and> issues rep = [] \<and>
         list_all (\<lambda>fa. overall_score fa = 100) (field_analyses rep)"
    by (simp add: z list_all_iff)
next
  assume h: "filename f \<noteq> [] \<and> endswith (filename f) ''.csv'' \<and> read_csv E f = Inr ds \<and>
    columns ds \<noteq> [] \<and> rows ds = [] \<and> weights_ok cfg"
  let ?rep = "\<lparr>table_scores =
            \<lparr>completeness_score = 100, correctness_score = 100, uniqueness_score = 100,
             consistency_score = 100, overall_score = 100, quality_grade = GradeA\<rparr>,
          field_analyses =
            map (\<lambda>c. \<lparr>completeness_score = 100, correctness_score = 100,
                       uniqueness_score = 100, consistency_score = 100, overall_score = 100,
                       quality_grade = GradeA, field_name = c, data_type = Unknown\<rparr>)
                (columns ds),
          issues = []\<rparr>"
  from h have z: "analyze_with R cfg ds (filename f) = Inr ?rep"
    by (intro zero_rows_report) simp_all
  let ?a = "report_to_py ?rep"
  let ?det = "add_detected_domain E ds (filename f) ?a"
  obtain a' evs where ai: "add_ai_insights E (filename f)
       (get_default ?det ''detected_domain'' (PStr ''Uploaded Data'')) ?det = (a', evs)"
    by (cases "add_ai_insights E (filename f)
       (get_default ?det ''detected_domain'' (PStr ''Uploaded Data'')) ?det")
  have r: "analyze_csv (spec_analyzer R) E cfg (Some f) =
      (analysis_response a',
       [EvReadCsv f, EvAnalyze ds (filename f), EvDetectDomain (columns ds) (filename f)] @ evs,
       cfg)"
    using h spec_analyzer_Inr [OF z] ai by (intro analyze_csv_success) simp_all
  obtain v where v: "a' = setitem ''ai_insights'' v ?det"
    using add_ai_insights_sets_key [of E "filename f"
        "get_default ?det ''detected_domain'' (PStr ''Uploaded Data'')" ?det] ai
    by auto
  have l1: "map_of a' ''issues'' = Some (PList [])"
    by (simp add: v map_of_setitem add_detected_domain_lookup report_to_py_def)
  have l2: "map_of a' ''table_scores'' = Some (PDict (scores_to_py (table_scores ?rep)))"
    by (simp add: v map_of_setitem add_detected_domain_lookup report_to_py_def)
  have l3: "map_of (scores_to_py (table_scores ?rep)) ''overall_score'' = Some (PNum 100)"
    by (simp add: scores_to_py_def)
  show "case analyze_csv (spec_analyzer R) E cfg (Some f) of (r, tr, az') \<Rightarrow>
         status r = 200 \<and> success_flag r = Some (PBool True) \<and>
         (\<exists>a sc. analysis_of r = Some a \<and> map_of a ''issues'' = Some (PList []) \<and>
            map_of a ''table_scores'' = Some (PDict sc) \<and>
            map_of sc ''overall_score'' = Some (PNum 100))"
    using l1 l2 l3 by (simp add: r)
next
  assume "table_map table_name = Some m \<and> query_error E m = None \<and> rows (db_table E m) = []"
  then show "case analyze_table cls E az table_name of (r, tr, az') \<Rightarrow>
         status r = 404 \<and> success_flag r = Some (PBool False) \<and> \<not> analyzer_called tr"
    by (simp add: analyze_table_def query_all_def analyzer_called_def)
qed

text \<open>
  C2, as stated, fails at the database-table route: a table with a column and zero rows
  is answered with the error 404 "No data found", and the engine is not called.
\<close>

theorem table_route_rejects_zero_rows:
  "columns (db_table sample_env Payroll) = [''id''] \<and> rows (db_table sample_env Payroll) = [] \<and>
   analyze_table (spec_analyzer simple_rules) sample_env default_config ''payroll'' =
     (\<lparr>status = 404,
       body = PDict [(''success'', PBool False), (''error'', PStr ''No data found'')]\<rparr>,
      [EvQueryAll Payroll, EvClose], default_config)"
  by (simp add: analyze_table_def table_map_def query_all_def sample_env_def empty_table_def
      error_response_def)




theorem zero_rows_engine_and_routes_witness:
  "(\<exists>rep. analyze_with simple_rules default_config empty_table ''t'' = Inr rep \<and>
      overall_score (table_scores rep) = 100 \<and> issues rep = []) \<and>
   status (fst (analyze_csv (spec_analyzer simple_rules) empty_csv_env default_config
     (Some sample_upload))) = 200 \<and>
   status (fst (analyze_table (spec_analyzer simple_rules) sample_env default_config
     ''payroll'')) = 404"
proof -
  have w: "weights_ok default_config" by (simp add: weights_ok_def default_config_def)
  have e: "columns empty_table \<noteq> [] \<and> rows empty_table = []" by (simp add: empty_table_def)
  have u: "filename sample_upload \<noteq> [] \<and> endswith (filename sample_upload) ''.csv'' \<and>
      read_csv empty_csv_env sample_upload = Inr empty_table"
    by (simp add: sample_upload_def endswith_def empty_csv_env_def sample_env_def)
  have p: "table_map ''payroll'' = Some Payroll \<and> query_error sample_env Payroll = None \<and>
      rows (db_table sample_env Payroll) = []"
    by (simp add: table_map_def sample_env_def empty_table_def)
  note a = zero_rows_engine_and_routes [where ds = empty_table and cfg = default_config and R = simple_rules
      and label = "''t''" and f = sample_upload and E = empty_csv_env]
  note b = zero_rows_engine_and_routes [where table_name = "''payroll''" and m = Payroll and E = sample_env
      and cls = "spec_analyzer simple_rules" and az = default_config]
  have 1: "\<exists>rep. analyze_with simple_rules default_config empty_table ''t'' = Inr rep \<and>
      overall_score (table_scores rep) = 100 \<and> issues rep = []"
    using mp [OF conjunct1 [OF a]] e w by (elim exE conjE) auto
  have 2: "status (fst (analyze_csv (spec_analyzer simple_rules) empty_csv_env default_config
     (Some sample_upload))) = 200"
    using mp [OF conjunct1 [OF conjunct2 [OF a]]] u e w by (simp split: prod.splits)
  have 3: "status (fst (analyze_table (spec_analyzer simple_rules) sample_env default_config
     ''payroll'')) = 404"
    using mp [OF conjunct2 [OF conjunct2 [OF b]] p] by (simp split: prod.splits)
  show ?thesis using 1 2 3 by (intro conjI)
qed



lemma report_part_error [simp]: "report_part (error_response c m) = None"
  by (simp add: report_part_def)






end
